theory Spec2Isabelle
  imports Complex_Main "HOL-Library.List_Lexorder"
begin

section \<open>Python values and pandas frames\<close>

text \<open>
  A Python \<^verbatim>\<open>str\<close> is a sequence of Unicode code points; iterating over it
  yields one-code-point strings. A code point is a natural number, so the emoji
  U+1F389 is the number \<open>0x1F389\<close>. \<open>py_str\<close> writes an ASCII literal.
\<close>

type_synonym pystr = "nat list"

definition py_str :: "string \<Rightarrow> pystr" where
  "py_str s = map of_char s"

text \<open>The exceptions the two scripts can meet, each with its message or key.\<close>

datatype py_error =
    ValueError pystr
  | KeyError pystr
  | AttributeError pystr
  | TypeError pystr
  | ZeroDivisionError
  | ReadError pystr

text \<open>
  A \<^verbatim>\<open>pandas.Timestamp\<close> with the attributes the analyzer reads:
  \<^verbatim>\<open>.year\<close>, \<^verbatim>\<open>.hour\<close>, \<^verbatim>\<open>.day_name()\<close> and
  \<^verbatim>\<open>.month_name()\<close>. Weekday and month are enumerations, so that the two
  name functions are total.
\<close>

datatype weekday = Monday | Tuesday | Wednesday | Thursday | Friday | Saturday | Sunday

datatype month_of_year =
    January | February | March | April | May | June
  | July | August | September | October | November | December

record timestamp =
  ts_year :: int
  ts_month :: month_of_year
  ts_day :: nat
  ts_hour :: nat
  ts_minute :: nat
  ts_second :: nat
  ts_weekday :: weekday

fun day_name :: "weekday \<Rightarrow> pystr" where
  "day_name Monday = py_str ''Monday''"
| "day_name Tuesday = py_str ''Tuesday''"
| "day_name Wednesday = py_str ''Wednesday''"
| "day_name Thursday = py_str ''Thursday''"
| "day_name Friday = py_str ''Friday''"
| "day_name Saturday = py_str ''Saturday''"
| "day_name Sunday = py_str ''Sunday''"

fun month_name :: "month_of_year \<Rightarrow> pystr" where
  "month_name January = py_str ''January''"
| "month_name February = py_str ''February''"
| "month_name March = py_str ''March''"
| "month_name April = py_str ''April''"
| "month_name May = py_str ''May''"
| "month_name June = py_str ''June''"
| "month_name July = py_str ''July''"
| "month_name August = py_str ''August''"
| "month_name September = py_str ''September''"
| "month_name October = py_str ''October''"
| "month_name November = py_str ''November''"
| "month_name December = py_str ''December''"

text \<open>
  The value of one cell of a frame: the float \<^verbatim>\<open>nan\<close> that pandas uses for a
  missing value, \<^verbatim>\<open>NaT\<close>, an integer, a string, a timestamp, or a Python list
  of strings (the \<^verbatim>\<open>emojis\<close> column).
\<close>

datatype cell =
    NaN
  | NaT
  | IntV int
  | StrV pystr
  | TsV timestamp
  | ListV "pystr list"

text \<open>
  A \<^verbatim>\<open>DataFrame\<close>: its column labels in order and its rows in order. A row
  maps a column label to its cell; a label of the frame that a row does not bind reads
  as \<^verbatim>\<open>nan\<close>, which is what \<^verbatim>\<open>pd.concat\<close> puts into the columns a
  source frame lacks.
\<close>

type_synonym row = "pystr \<rightharpoonup> cell"

record dataframe =
  df_columns :: "pystr list"
  df_rows :: "row list"

definition cell_at :: "row \<Rightarrow> pystr \<Rightarrow> cell" where
  "cell_at r c = (case r c of None \<Rightarrow> NaN | Some v \<Rightarrow> v)"

text \<open>\<^verbatim>\<open>df[c]\<close>: the column as a list of cells, a \<^verbatim>\<open>KeyError\<close> when absent.\<close>

definition series :: "dataframe \<Rightarrow> pystr \<Rightarrow> py_error + cell list" where
  "series df c =
     (if c \<in> set (df_columns df) then Inr (map (\<lambda>r. cell_at r c) (df_rows df))
      else Inl (KeyError c))"

text \<open>
  \<^verbatim>\<open>df[c] = v\<close> for a scalar \<open>v\<close>: every row gets \<open>v\<close> under \<open>c\<close>; the label is
  appended when the frame does not have it and overwritten in place when it does.
\<close>

definition assign_scalar :: "dataframe \<Rightarrow> pystr \<Rightarrow> cell \<Rightarrow> dataframe" where
  "assign_scalar df c v =
     \<lparr>df_columns = (if c \<in> set (df_columns df) then df_columns df else df_columns df @ [c]),
      df_rows = map (\<lambda>r. r(c \<mapsto> v)) (df_rows df)\<rparr>"

text \<open>\<^verbatim>\<open>df[c] = s\<close> for a series \<open>s\<close> over the frame's own index.\<close>

definition assign_series :: "dataframe \<Rightarrow> pystr \<Rightarrow> cell list \<Rightarrow> dataframe" where
  "assign_series df c vs =
     \<lparr>df_columns = (if c \<in> set (df_columns df) then df_columns df else df_columns df @ [c]),
      df_rows = map (\<lambda>(r, v). r(c \<mapsto> v)) (zip (df_rows df) vs)\<rparr>"

text \<open>
  \<^verbatim>\<open>pd.concat(dfs, ignore_index=True)\<close>: the rows of all frames in order, under
  the union of their columns in order of first appearance.
\<close>

definition union_columns :: "pystr list list \<Rightarrow> pystr list" where
  "union_columns css = rev (remdups (rev (concat css)))"

definition pd_concat :: "dataframe list \<Rightarrow> dataframe" where
  "pd_concat dfs =
     \<lparr>df_columns = union_columns (map df_columns dfs),
      df_rows = concat (map df_rows dfs)\<rparr>"

section \<open>The aggregator (combine_imessages.py)\<close>

text \<open>
  A path is the list of its components below the root. \<^verbatim>\<open>csv_file.parent.name\<close>
  is the last component of the path without its own last component, and the empty
  string when the parent is the root.
\<close>

type_synonym path = "pystr list"

definition path_parent :: "path \<Rightarrow> path" where
  "path_parent p = butlast p"

definition path_name :: "path \<Rightarrow> pystr" where
  "path_name p = (if p = [] then [] else last p)"

definition conversation_id :: pystr where
  "conversation_id = py_str ''conversation_id''"

definition output_path :: "path \<Rightarrow> path" where
  "output_path base_path = base_path @ [py_str ''combined_messages.csv'']"

text \<open>What the aggregator prints, one constructor for each \<^verbatim>\<open>print\<close>.\<close>

datatype agg_event =
    Progress nat nat
  | ErrorProcessing path py_error
  | Combined nat path
  | TotalRows nat
  | NoCsvFiles

record agg_state =
  all_dfs :: "dataframe list"
  processed_files :: nat
  printed :: "agg_event list"

text \<open>
  The second loop of \<^verbatim>\<open>combine_csv_files\<close> (lines 21 to 38). \<open>read_csv\<close> is what
  \<^verbatim>\<open>pd.read_csv\<close> gives for each path: a frame, or the exception it raised, which
  the \<^verbatim>\<open>except\<close> clause prints before the loop goes on with the next file.
\<close>

fun process_files ::
  "(path \<Rightarrow> py_error + dataframe) \<Rightarrow> nat \<Rightarrow> path list \<Rightarrow> agg_state \<Rightarrow> agg_state" where
  "process_files read_csv total_files [] s = s"
| "process_files read_csv total_files (csv_file # rest) s =
     process_files read_csv total_files rest
       (case read_csv csv_file of
          Inl e \<Rightarrow> s\<lparr>printed := printed s @ [ErrorProcessing csv_file e]\<rparr>
        | Inr df \<Rightarrow>
            (let df' = assign_scalar df conversation_id (StrV (path_name (path_parent csv_file)));
                 n = processed_files s + 1
             in \<lparr>all_dfs = all_dfs s @ [df'],
                 processed_files = n,
                 printed = (if n mod 100 = 0 then printed s @ [Progress n total_files]
                            else printed s)\<rparr>))"

text \<open>
  \<^verbatim>\<open>combine_csv_files\<close>: \<open>csv_files\<close> is what \<^verbatim>\<open>base_path.rglob('*.csv')\<close>
  yields, in traversal order. The result is what was printed and the artifact that was
  written, if any: its path and the frame \<^verbatim>\<open>to_csv\<close> saved.
\<close>

definition combine_csv_files ::
  "path \<Rightarrow> path list \<Rightarrow> (path \<Rightarrow> py_error + dataframe) \<Rightarrow>
   agg_event list \<times> (path \<times> dataframe) option" where
  "combine_csv_files base_path csv_files read_csv =
     (let total_files = length csv_files;
          s = process_files read_csv total_files csv_files
                \<lparr>all_dfs = [], processed_files = 0, printed = []\<rparr>
      in if all_dfs s \<noteq> [] then
           (let combined_df = pd_concat (all_dfs s)
            in (printed s @ [Combined (length (all_dfs s)) (output_path base_path),
                             TotalRows (length (df_rows combined_df))],
                Some (output_path base_path, combined_df)))
         else (printed s @ [NoCsvFiles], None))"

section \<open>The emoji analyzer (emoji_wrapped.py)\<close>

definition date_column :: pystr where
  "date_column = py_str ''Message Date''"

definition text_column :: pystr where
  "text_column = py_str ''Text''"

definition type_column :: pystr where
  "type_column = py_str ''Type''"

definition outgoing :: pystr where
  "outgoing = py_str ''Outgoing''"

definition target_year :: int where
  "target_year = 2024"

definition emojis_column :: pystr where
  "emojis_column = py_str ''emojis''"

definition emoji_count_column :: pystr where
  "emoji_count_column = py_str ''emoji_count''"

text \<open>
  The dtype pandas gives a column of strings: \<^verbatim>\<open>object\<close> up to pandas 2,
  \<^verbatim>\<open>str\<close> from pandas 3 on. The repository pins no version of pandas. For a
  column with rows the two behave alike here; an empty one differs:
  \<^verbatim>\<open>Series.apply\<close> on an empty series keeps its dtype, and \<^verbatim>\<open>.sum()\<close> of an
  empty \<^verbatim>\<open>object\<close> column is the integer 0, of an empty \<^verbatim>\<open>str\<close> column the
  empty string.
\<close>

datatype column_dtype = ObjectDtype | StrDtype

text \<open>
  The file at \<^verbatim>\<open>csv_path\<close>, as the two calls of \<^verbatim>\<open>pd.read_csv\<close> see it:
  the column labels of the header (\<^verbatim>\<open>nrows=0\<close>), and the full table with the
  date column parsed (\<^verbatim>\<open>parse_dates\<close>); either call may raise. \<open>text_dtype\<close>
  is the dtype the installed pandas gives the text column.
\<close>

record csv_source =
  read_header :: "py_error + pystr list"
  read_full :: "py_error + dataframe"
  text_dtype :: column_dtype

text \<open>
  One record of \<^verbatim>\<open>emoji_data\<close> (lines 70 to 76). \<open>None\<close> in a time feature is
  the \<^verbatim>\<open>nan\<close> that the attributes of \<^verbatim>\<open>NaT\<close> give.
\<close>

record emoji_rec =
  message_date :: cell
  emoji :: pystr
  hour :: "nat option"
  day_of_week :: "pystr option"
  month :: "pystr option"

text \<open>
  The figure of \<^verbatim>\<open>plot_time_patterns\<close>: the points \<open>(x, y)\<close> of its three
  traces. \<open>None\<close> as \<open>y\<close> is the \<^verbatim>\<open>nan\<close> that \<^verbatim>\<open>reindex\<close> fills in.
\<close>

record time_fig =
  hourly_trace :: "(nat \<times> nat) list"
  daily_trace :: "(pystr \<times> nat option) list"
  monthly_trace :: "(pystr \<times> nat option) list"

text \<open>What the analyzer prints, one constructor for each \<^verbatim>\<open>print\<close>.\<close>

datatype event =
    AvailableColumns "pystr list"
  | ReadingCsv
  | FoundOutgoing nat
  | ErrorLoading py_error
  | ExtractingEmojis
  | ProcessingEmojiData
  | FoundEmojiUses nat
  | StatsHeader
  | TotalEmojis int
  | UniqueEmojis nat
  | MessagesWithEmojis nat
  | PercentageWithEmojis rat
  | GeneratingTimePatterns
  | AnalyzingCategories
  | StartingAnalysis
  | AnalysisComplete
  | ErrorDuringAnalysis py_error
  | PleaseCheck

subsection \<open>load_data\<close>

definition could_not_find :: "pystr \<Rightarrow> pystr" where
  "could_not_find c = py_str ''Could not find '' @ [39] @ c @ [39] @ py_str '' column.''"

text \<open>
  \<^verbatim>\<open>s.dt.year\<close>: the accessor exists on a column of datetime dtype only.
  \<^verbatim>\<open>parse_dates\<close> gives that dtype to a column with rows whose cells all parse,
  to timestamps or \<^verbatim>\<open>NaT\<close>; the column of a file with a header and no rows
  stays of dtype \<^verbatim>\<open>object\<close>, and so does one with a cell that does not parse. The
  year of \<^verbatim>\<open>NaT\<close> is \<^verbatim>\<open>nan\<close>.
\<close>

fun is_datetime :: "cell \<Rightarrow> bool" where
  "is_datetime (TsV t) = True"
| "is_datetime NaT = True"
| "is_datetime v = False"

fun year_of :: "cell \<Rightarrow> cell" where
  "year_of (TsV t) = IntV (ts_year t)"
| "year_of v = NaN"

definition dt_year :: "cell list \<Rightarrow> py_error + cell list" where
  "dt_year s =
     (if s \<noteq> [] \<and> list_all is_datetime s then Inr (map year_of s)
      else Inl (AttributeError (py_str ''Can only use .dt accessor with datetimelike values'')))"

text \<open>\<^verbatim>\<open>df[mask]\<close>: the rows whose mask entry is true, in order.\<close>

definition select_rows :: "dataframe \<Rightarrow> bool list \<Rightarrow> dataframe" where
  "select_rows df keep = df\<lparr>df_rows := map fst (filter snd (zip (df_rows df) keep))\<rparr>"

text \<open>Lines 41 to 44: the mask is built left to right, then applied.\<close>

definition filter_2024_outgoing :: "dataframe \<Rightarrow> py_error + dataframe" where
  "filter_2024_outgoing df =
     (case series df date_column of
        Inl e \<Rightarrow> Inl e
      | Inr dates \<Rightarrow>
          (case dt_year dates of
             Inl e \<Rightarrow> Inl e
           | Inr years \<Rightarrow>
               (case series df type_column of
                  Inl e \<Rightarrow> Inl e
                | Inr types \<Rightarrow>
                    Inr (select_rows df
                          (map (\<lambda>(y, t). y = IntV target_year \<and> t = StrV outgoing)
                             (zip years types))))))"

text \<open>
  The body of the \<^verbatim>\<open>try\<close> of \<^verbatim>\<open>load_data\<close> (lines 23 to 46): what it
  printed, and the frame it stored in \<^verbatim>\<open>self.df\<close> or the exception it raised.
\<close>

definition load_data_body :: "csv_source \<Rightarrow> event list \<times> (py_error + dataframe)" where
  "load_data_body src =
     (case read_header src of
        Inl e \<Rightarrow> ([], Inl e)
      | Inr columns \<Rightarrow>
          if date_column \<notin> set columns then
            ([AvailableColumns columns], Inl (ValueError (could_not_find date_column)))
          else if text_column \<notin> set columns then
            ([AvailableColumns columns], Inl (ValueError (could_not_find text_column)))
          else
            (case read_full src of
               Inl e \<Rightarrow> ([ReadingCsv], Inl e)
             | Inr df \<Rightarrow>
                 (case filter_2024_outgoing df of
                    Inl e \<Rightarrow> ([ReadingCsv], Inl e)
                  | Inr df' \<Rightarrow> ([ReadingCsv, FoundOutgoing (length (df_rows df'))], Inr df'))))"

text \<open>
  \<^verbatim>\<open>load_data\<close>: the \<^verbatim>\<open>except\<close> clause (lines 48 to 50) prints the exception
  and raises it again.
\<close>

definition load_data :: "csv_source \<Rightarrow> event list \<times> (py_error + dataframe)" where
  "load_data src =
     (case load_data_body src of
        (out, Inl e) \<Rightarrow> (out @ [ErrorLoading e], Inl e)
      | (out, Inr df) \<Rightarrow> (out, Inr df))"

subsection \<open>extract_emojis and process_emoji_data\<close>

text \<open>
  \<^verbatim>\<open>emoji.EMOJI_DATA\<close> is a dictionary of the \<^verbatim>\<open>emoji\<close> package, from an emoji
  string to a dictionary of its properties. It is not part of the repository, so the
  functions that read it take it as their first argument.
\<close>

type_synonym emoji_table = "pystr \<rightharpoonup> (pystr \<rightharpoonup> cell)"

definition extract_emojis :: "emoji_table \<Rightarrow> cell \<Rightarrow> pystr list" where
  "extract_emojis EMOJI_DATA text =
     (case text of
        StrV s \<Rightarrow> [[c]. c \<leftarrow> s, EMOJI_DATA [c] \<noteq> None]
      | _ \<Rightarrow> [])"

text \<open>\<^verbatim>\<open>len(v)\<close> and \<^verbatim>\<open>for x in v\<close> on the value of a cell.\<close>

fun py_len :: "cell \<Rightarrow> py_error + cell" where
  "py_len (ListV es) = Inr (IntV (int (length es)))"
| "py_len (StrV s) = Inr (IntV (int (length s)))"
| "py_len v = Inl (TypeError (py_str ''object has no len()''))"

fun py_iter :: "cell \<Rightarrow> py_error + pystr list" where
  "py_iter (ListV es) = Inr es"
| "py_iter (StrV s) = Inr (map (\<lambda>c. [c]) s)"
| "py_iter v = Inl (TypeError (py_str ''object is not iterable''))"

text \<open>\<^verbatim>\<open>s.apply(f)\<close> for an \<open>f\<close> that may raise: the first exception ends it.\<close>

fun apply_series :: "('a \<Rightarrow> py_error + 'b) \<Rightarrow> 'a list \<Rightarrow> py_error + 'b list" where
  "apply_series f [] = Inr []"
| "apply_series f (x # xs) =
     (case f x of
        Inl e \<Rightarrow> Inl e
      | Inr y \<Rightarrow> (case apply_series f xs of Inl e \<Rightarrow> Inl e | Inr ys \<Rightarrow> Inr (y # ys)))"

text \<open>
  The dictionary of lines 70 to 76 for one emoji of a row whose date cell is \<open>d\<close>.
  A timestamp has the three attributes, \<^verbatim>\<open>NaT\<close> answers each with \<^verbatim>\<open>nan\<close>, and
  any other value has no attribute \<^verbatim>\<open>hour\<close>.
\<close>

fun emoji_record :: "cell \<Rightarrow> pystr \<Rightarrow> py_error + emoji_rec" where
  "emoji_record (TsV t) emoji_char =
     Inr \<lparr>message_date = TsV t, emoji = emoji_char, hour = Some (ts_hour t),
          day_of_week = Some (day_name (ts_weekday t)),
          month = Some (month_name (ts_month t))\<rparr>"
| "emoji_record NaT emoji_char =
     Inr \<lparr>message_date = NaT, emoji = emoji_char, hour = None,
          day_of_week = None, month = None\<rparr>"
| "emoji_record d emoji_char = Inl (AttributeError (py_str ''hour''))"

text \<open>The two nested loops of lines 68 to 76, over the rows of \<^verbatim>\<open>self.df\<close>.\<close>

fun expand_rows :: "row list \<Rightarrow> py_error + emoji_rec list" where
  "expand_rows [] = Inr []"
| "expand_rows (r # rs) =
     (case py_iter (cell_at r emojis_column) of
        Inl e \<Rightarrow> Inl e
      | Inr es \<Rightarrow>
          (case apply_series (emoji_record (cell_at r date_column)) es of
             Inl e \<Rightarrow> Inl e
           | Inr recs \<Rightarrow>
               (case expand_rows rs of
                  Inl e \<Rightarrow> Inl e
                | Inr later \<Rightarrow> Inr (recs @ later))))"

text \<open>
  \<^verbatim>\<open>process_emoji_data\<close>: what it printed, and the new \<^verbatim>\<open>self.df\<close> with
  \<^verbatim>\<open>self.emoji_data\<close>, or the exception raised.
\<close>

definition process_emoji_data ::
  "emoji_table \<Rightarrow> dataframe \<Rightarrow> event list \<times> (py_error + dataframe \<times> emoji_rec list)" where
  "process_emoji_data EMOJI_DATA df =
     (case series df text_column of
        Inl e \<Rightarrow> ([ExtractingEmojis], Inl e)
      | Inr texts \<Rightarrow>
          (let df1 = assign_series df emojis_column
                       (map (\<lambda>text. ListV (extract_emojis EMOJI_DATA text)) texts)
           in case series df1 emojis_column of
                Inl e \<Rightarrow> ([ExtractingEmojis], Inl e)
              | Inr emoji_lists \<Rightarrow>
                  (case apply_series py_len emoji_lists of
                     Inl e \<Rightarrow> ([ExtractingEmojis], Inl e)
                   | Inr counts \<Rightarrow>
                       (let df2 = assign_series df1 emoji_count_column counts
                        in case expand_rows (df_rows df2) of
                             Inl e \<Rightarrow> ([ExtractingEmojis, ProcessingEmojiData], Inl e)
                           | Inr emoji_data \<Rightarrow>
                               ([ExtractingEmojis, ProcessingEmojiData,
                                 FoundEmojiUses (length emoji_data)],
                                Inr (df2, emoji_data))))))"

subsection \<open>basic_stats\<close>

text \<open>
  \<^verbatim>\<open>s.sum()\<close> on a column with rows skips \<^verbatim>\<open>nan\<close> and adds integers;
  \<^verbatim>\<open>s > 0\<close> compares cell by cell, and \<^verbatim>\<open>nan > 0\<close> is false.
\<close>

fun series_sum :: "cell list \<Rightarrow> py_error + int" where
  "series_sum [] = Inr 0"
| "series_sum (IntV n # vs) =
     (case series_sum vs of Inl e \<Rightarrow> Inl e | Inr t \<Rightarrow> Inr (n + t))"
| "series_sum (NaN # vs) = series_sum vs"
| "series_sum (v # vs) = Inl (TypeError (py_str ''unsupported operand type(s) for +''))"

text \<open>
  \<^verbatim>\<open>self.df['emoji_count'].sum()\<close> (line 82). The column comes from two calls of
  \<^verbatim>\<open>apply\<close> on the text column (lines 62 and 63), so when the frame has no rows it
  still has the dtype of the text column, and its sum is the integer 0 or the empty
  string.
\<close>

definition column_sum :: "column_dtype \<Rightarrow> cell list \<Rightarrow> py_error + cell" where
  "column_sum dtype vs =
     (if vs = [] then Inr (case dtype of ObjectDtype \<Rightarrow> IntV 0 | StrDtype \<Rightarrow> StrV [])
      else (case series_sum vs of Inl e \<Rightarrow> Inl e | Inr t \<Rightarrow> Inr (IntV t)))"

fun gt_zero :: "cell \<Rightarrow> py_error + bool" where
  "gt_zero (IntV n) = Inr (0 < n)"
| "gt_zero NaN = Inr False"
| "gt_zero v = Inl (TypeError (py_str ''not supported between instances''))"

text \<open>
  The format \<^verbatim>\<open>{total_emojis:,}\<close> of line 87: an integer is printed with its
  thousands separators; for a string Python raises
  \<^verbatim>\<open>ValueError: Cannot specify ',' with 's'.\<close>
\<close>

definition cannot_specify :: pystr where
  "cannot_specify =
     py_str ''Cannot specify '' @ [39, 44, 39] @ py_str '' with '' @ [39, 115, 39] @ py_str ''.''"

fun format_grouped :: "cell \<Rightarrow> py_error + int" where
  "format_grouped (IntV n) = Inr n"
| "format_grouped (StrV s) = Inl (ValueError cannot_specify)"
| "format_grouped v = Inl (TypeError (py_str ''unsupported format string''))"

text \<open>
  \<^verbatim>\<open>basic_stats\<close> (lines 82 to 90): the three statistics are computed first, then
  five lines are printed. Printing the total raises when the total is a string; the last
  line divides by \<^verbatim>\<open>len(self.df)\<close>, and Python's \<^verbatim>\<open>/\<close> on integers raises
  \<^verbatim>\<open>ZeroDivisionError\<close> for a zero divisor. \<open>dtype\<close> is the dtype of the text
  column. The percentage is kept as the exact quotient; its rounding to one decimal is
  not modelled.
\<close>

definition basic_stats :: "column_dtype \<Rightarrow> dataframe \<Rightarrow> event list \<times> (py_error + unit)" where
  "basic_stats dtype df =
     (case series df emoji_count_column of
        Inl e \<Rightarrow> ([], Inl e)
      | Inr counts \<Rightarrow>
     (case column_sum dtype counts of
        Inl e \<Rightarrow> ([], Inl e)
      | Inr total_emojis \<Rightarrow>
     (case series df emojis_column of
        Inl e \<Rightarrow> ([], Inl e)
      | Inr emoji_lists \<Rightarrow>
     (case apply_series py_iter emoji_lists of
        Inl e \<Rightarrow> ([], Inl e)
      | Inr all_emojis \<Rightarrow>
     (case apply_series gt_zero counts of
        Inl e \<Rightarrow> ([], Inl e)
      | Inr keep \<Rightarrow>
          (let unique_emojis = length (remdups (concat all_emojis));
               messages_with_emojis = length (df_rows (select_rows df keep))
           in case format_grouped total_emojis of
                Inl e \<Rightarrow> ([StatsHeader], Inl e)
              | Inr printed_total \<Rightarrow>
                  (let out = [StatsHeader, TotalEmojis printed_total, UniqueEmojis unique_emojis,
                              MessagesWithEmojis messages_with_emojis]
                   in if length (df_rows df) = 0 then (out, Inl ZeroDivisionError)
                      else (out @ [PercentageWithEmojis
                                     (of_nat messages_with_emojis
                                      / of_nat (length (df_rows df)) * 100)],
                            Inr ()))))))))"

subsection \<open>plot_time_patterns\<close>

text \<open>
  \<^verbatim>\<open>groupby(key).size()\<close>: one entry for each key that occurs, with the number
  of its records, sorted by key; records whose key is \<^verbatim>\<open>nan\<close> are dropped.
  Strings sort by code point, which is the order of \<open>List_Lexorder\<close>.
\<close>

definition groupby_size :: "'k::linorder option list \<Rightarrow> ('k \<times> nat) list" where
  "groupby_size keys =
     (let present = [k. Some k \<leftarrow> keys]
      in map (\<lambda>k. (k, count_list present k)) (sort (remdups present)))"

text \<open>
  \<^verbatim>\<open>s.reindex(labels)\<close>: the labels in the given order, each with the value the
  series has for it, or \<^verbatim>\<open>nan\<close> (the default fill value) when it has none.
\<close>

definition reindex :: "('k \<times> nat) list \<Rightarrow> 'k list \<Rightarrow> ('k \<times> nat option) list" where
  "reindex s labels = map (\<lambda>l. (l, map_of s l)) labels"

definition days_order :: "pystr list" where
  "days_order = [py_str ''Monday'', py_str ''Tuesday'', py_str ''Wednesday'',
                 py_str ''Thursday'', py_str ''Friday'', py_str ''Saturday'',
                 py_str ''Sunday'']"

definition months_order :: "pystr list" where
  "months_order = [py_str ''January'', py_str ''February'', py_str ''March'',
                   py_str ''April'', py_str ''May'', py_str ''June'', py_str ''July'',
                   py_str ''August'', py_str ''September'', py_str ''October'',
                   py_str ''November'', py_str ''December'']"

text \<open>
  \<^verbatim>\<open>plot_time_patterns\<close>: \<^verbatim>\<open>pd.DataFrame([])\<close> has no columns, so grouping an
  empty \<^verbatim>\<open>emoji_data\<close> by \<^verbatim>\<open>'hour'\<close> raises \<^verbatim>\<open>KeyError\<close>. The hourly series is
  plotted as grouped; the daily and monthly ones are reindexed first. The result is the
  figure that \<^verbatim>\<open>fig.show()\<close> displays.
\<close>

definition plot_time_patterns :: "emoji_rec list \<Rightarrow> event list \<times> (py_error + time_fig)" where
  "plot_time_patterns emoji_data =
     (if emoji_data = [] then ([GeneratingTimePatterns], Inl (KeyError (py_str ''hour'')))
      else
        (let hourly = groupby_size (map hour emoji_data);
             daily = reindex (groupby_size (map day_of_week emoji_data)) days_order;
             monthly = reindex (groupby_size (map month emoji_data)) months_order
         in ([GeneratingTimePatterns],
             Inr \<lparr>hourly_trace = hourly, daily_trace = daily, monthly_trace = monthly\<rparr>)))"

subsection \<open>analyze_categories\<close>

definition category_key :: pystr where
  "category_key = py_str ''category''"

definition unknown_category :: cell where
  "unknown_category = StrV (py_str ''Unknown'')"

text \<open>
  \<^verbatim>\<open>get_emoji_category\<close> (line 170): the subscript \<^verbatim>\<open>EMOJI_DATA[emoji_char]\<close>
  raises \<^verbatim>\<open>KeyError\<close> for a string that is not a key; \<^verbatim>\<open>.get\<close> on the entry
  gives the default when the entry has no \<^verbatim>\<open>'category'\<close>.
\<close>

definition get_emoji_category :: "emoji_table \<Rightarrow> pystr \<Rightarrow> py_error + cell" where
  "get_emoji_category EMOJI_DATA emoji_char =
     (case EMOJI_DATA emoji_char of
        None \<Rightarrow> Inl (KeyError emoji_char)
      | Some entry \<Rightarrow>
          Inr (case entry category_key of None \<Rightarrow> unknown_category | Some v \<Rightarrow> v))"

text \<open>
  \<^verbatim>\<open>analyze_categories\<close> (lines 168 to 172): each record of \<^verbatim>\<open>emoji_data\<close>
  with the value of its new \<^verbatim>\<open>category\<close> column. An empty \<^verbatim>\<open>emoji_data\<close> has no
  column \<^verbatim>\<open>'emoji'\<close>. The pie chart of lines 173 to 180 draws the counts of this
  column and is left out.
\<close>

definition analyze_categories ::
  "emoji_table \<Rightarrow> emoji_rec list \<Rightarrow> event list \<times> (py_error + (emoji_rec \<times> cell) list)" where
  "analyze_categories EMOJI_DATA emoji_data =
     (if emoji_data = [] then ([AnalyzingCategories], Inl (KeyError (py_str ''emoji'')))
      else
        (case apply_series (get_emoji_category EMOJI_DATA) (map emoji emoji_data) of
           Inl e \<Rightarrow> ([AnalyzingCategories], Inl e)
         | Inr categories \<Rightarrow> ([AnalyzingCategories], Inr (zip emoji_data categories))))"

subsection \<open>main\<close>

text \<open>
  One statement after another inside a \<^verbatim>\<open>try\<close>: the second runs on the result of
  the first unless the first raised; what both printed is kept in order.
\<close>

definition and_then ::
  "event list \<times> (py_error + 'a) \<Rightarrow> ('a \<Rightarrow> event list \<times> (py_error + 'b)) \<Rightarrow>
   event list \<times> (py_error + 'b)" where
  "and_then m f =
     (case m of
        (out, Inl e) \<Rightarrow> (out, Inl e)
      | (out, Inr x) \<Rightarrow> (case f x of (out', r) \<Rightarrow> (out @ out', r)))"

text \<open>
  \<^verbatim>\<open>main\<close> (lines 189 to 207). \<^verbatim>\<open>plot_top_emojis\<close> and
  \<^verbatim>\<open>plot_usage_over_time\<close> only draw with the plotting library; they are arguments
  here, each giving what it printed and whether it raised. The \<^verbatim>\<open>except\<close> clause
  prints two lines and raises the exception again, which ends the run.
\<close>

definition main_body ::
  "emoji_table \<Rightarrow> csv_source \<Rightarrow> (dataframe \<Rightarrow> event list \<times> (py_error + unit)) \<Rightarrow>
   (emoji_rec list \<Rightarrow> event list \<times> (py_error + unit)) \<Rightarrow> event list \<times> (py_error + unit)" where
  "main_body EMOJI_DATA src plot_top_emojis plot_usage_over_time =
     and_then ([StartingAnalysis], Inr ()) (\<lambda>_.
     and_then (load_data src) (\<lambda>df.
     and_then (process_emoji_data EMOJI_DATA df) (\<lambda>(df2, emoji_data).
     and_then (basic_stats (text_dtype src) df2) (\<lambda>_.
     and_then (plot_top_emojis df2) (\<lambda>_.
     and_then (plot_time_patterns emoji_data) (\<lambda>_.
     and_then (plot_usage_over_time emoji_data) (\<lambda>_.
     and_then (analyze_categories EMOJI_DATA emoji_data) (\<lambda>_.
     ([AnalysisComplete], Inr ())))))))))"

definition main ::
  "emoji_table \<Rightarrow> csv_source \<Rightarrow> (dataframe \<Rightarrow> event list \<times> (py_error + unit)) \<Rightarrow>
   (emoji_rec list \<Rightarrow> event list \<times> (py_error + unit)) \<Rightarrow> event list \<times> (py_error + unit)" where
  "main EMOJI_DATA src plot_top_emojis plot_usage_over_time =
     (case main_body EMOJI_DATA src plot_top_emojis plot_usage_over_time of
        (out, Inl e) \<Rightarrow> (out @ [ErrorDuringAnalysis e, PleaseCheck], Inl e)
      | (out, Inr u) \<Rightarrow> (out, Inr u))"

section \<open>Notions the claims speak of, and example inputs\<close>

subsection \<open>Aggregator\<close>

text \<open>
  The input files that parse successfully, in traversal order, each with the frame
  \<^verbatim>\<open>pd.read_csv\<close> gave for it.
\<close>

definition loaded :: "(path \<Rightarrow> py_error + dataframe) \<Rightarrow> path list \<Rightarrow> (path \<times> dataframe) list" where
  "loaded read_csv csv_files =
     concat (map (\<lambda>f. case read_csv f of Inl e \<Rightarrow> [] | Inr df \<Rightarrow> [(f, df)]) csv_files)"

text \<open>A parsed frame with the provenance column of line 27 attached.\<close>

definition tagged :: "path \<times> dataframe \<Rightarrow> dataframe" where
  "tagged fd = assign_scalar (snd fd) conversation_id (StrV (path_name (path_parent (fst fd))))"

text \<open>
  The provenance column of the written artifact, row by row (empty when nothing was
  written).
\<close>

definition provenance :: "(path \<times> dataframe) option \<Rightarrow> cell list" where
  "provenance w =
     (case w of
        None \<Rightarrow> []
      | Some (p, df) \<Rightarrow> (case series df conversation_id of Inl e \<Rightarrow> [] | Inr vs \<Rightarrow> vs))"

text \<open>
  A small tree of exports: two files in the folder \<^verbatim>\<open>alice\<close>, one in
  \<^verbatim>\<open>bob\<close>, and one in \<^verbatim>\<open>carol\<close> that \<^verbatim>\<open>pd.read_csv\<close> cannot parse.
\<close>

definition ex_base :: path where
  "ex_base = [py_str ''home'', py_str ''messages'']"

definition ex_alice_a :: path where
  "ex_alice_a = ex_base @ [py_str ''alice'', py_str ''a.csv'']"

definition ex_alice_b :: path where
  "ex_alice_b = ex_base @ [py_str ''alice'', py_str ''b.csv'']"

definition ex_bob :: path where
  "ex_bob = ex_base @ [py_str ''bob'', py_str ''chat.csv'']"

definition ex_broken :: path where
  "ex_broken = ex_base @ [py_str ''carol'', py_str ''chat.csv'']"

definition ex_frame :: "pystr list \<Rightarrow> dataframe" where
  "ex_frame ts = \<lparr>df_columns = [text_column], df_rows = map (\<lambda>t. [text_column \<mapsto> StrV t]) ts\<rparr>"

definition ex_read_csv :: "path \<Rightarrow> py_error + dataframe" where
  "ex_read_csv p =
     (if p = ex_alice_a then Inr (ex_frame [py_str ''hi'', py_str ''yo''])
      else if p = ex_alice_b then Inr (ex_frame [py_str ''ok''])
      else if p = ex_bob then Inr (ex_frame [py_str ''hey''])
      else Inl (ReadError (py_str ''Error tokenizing data'')))"

subsection \<open>Analyzer\<close>

text \<open>
  The filter of the claim: the row's parsed timestamp has the target year, and its
  direction label is the outgoing marker.
\<close>

definition is_2024_outgoing :: "row \<Rightarrow> bool" where
  "is_2024_outgoing r =
     ((case cell_at r date_column of TsV t \<Rightarrow> ts_year t = target_year | _ \<Rightarrow> False)
      \<and> cell_at r type_column = StrV outgoing)"

text \<open>
  Three messages: an outgoing one of 2023, an incoming one of 2024 and an outgoing one
  of 2024 (Friday 15 March 2024, 10:30), and the file that holds them.
\<close>

definition ex_ts_2023 :: timestamp where
  "ex_ts_2023 = \<lparr>ts_year = 2023, ts_month = December, ts_day = 31, ts_hour = 23,
                  ts_minute = 59, ts_second = 0, ts_weekday = Sunday\<rparr>"

definition ex_ts_2024 :: timestamp where
  "ex_ts_2024 = \<lparr>ts_year = 2024, ts_month = March, ts_day = 15, ts_hour = 10,
                  ts_minute = 30, ts_second = 0, ts_weekday = Friday\<rparr>"

definition ex_message :: "timestamp \<Rightarrow> pystr \<Rightarrow> pystr \<Rightarrow> row" where
  "ex_message t direction body =
     [date_column \<mapsto> TsV t, type_column \<mapsto> StrV direction, text_column \<mapsto> StrV body]"

definition ex_columns :: "pystr list" where
  "ex_columns = [date_column, type_column, text_column]"

definition sample_text :: pystr where
  "sample_text = py_str ''Hi '' @ [0x1F44B] @ py_str '' there '' @ [0x1F389, 0x1F389]"

definition ex_old_outgoing :: row where
  "ex_old_outgoing = ex_message ex_ts_2023 outgoing (py_str ''old'')"

definition ex_incoming :: row where
  "ex_incoming = ex_message ex_ts_2024 (py_str ''Incoming'') (py_str ''in'')"

definition ex_kept :: row where
  "ex_kept = ex_message ex_ts_2024 outgoing sample_text"

definition ex_source :: csv_source where
  "ex_source =
     \<lparr>read_header = Inr ex_columns,
      read_full = Inr \<lparr>df_columns = ex_columns,
                       df_rows = [ex_old_outgoing, ex_incoming, ex_kept]\<rparr>,
      text_dtype = ObjectDtype\<rparr>"

text \<open>
  A file without the text column, and one whose messages are all of 2023, read with
  pandas 2 and with pandas 3.
\<close>

definition ex_source_no_text :: csv_source where
  "ex_source_no_text =
     \<lparr>read_header = Inr [date_column, type_column],
      read_full = Inr \<lparr>df_columns = [date_column, type_column], df_rows = []\<rparr>,
      text_dtype = ObjectDtype\<rparr>"

definition ex_source_old :: csv_source where
  "ex_source_old =
     \<lparr>read_header = Inr ex_columns,
      read_full = Inr \<lparr>df_columns = ex_columns, df_rows = [ex_old_outgoing]\<rparr>,
      text_dtype = ObjectDtype\<rparr>"

definition ex_source_old_str :: csv_source where
  "ex_source_old_str =
     \<lparr>read_header = Inr ex_columns,
      read_full = Inr \<lparr>df_columns = ex_columns, df_rows = [ex_old_outgoing]\<rparr>,
      text_dtype = StrDtype\<rparr>"

text \<open>What the filter leaves of that file, and the same with its two derived columns.\<close>

definition ex_empty_frame :: dataframe where
  "ex_empty_frame = \<lparr>df_columns = ex_columns, df_rows = []\<rparr>"

definition ex_empty_processed :: dataframe where
  "ex_empty_processed =
     \<lparr>df_columns = ex_columns @ [emojis_column, emoji_count_column], df_rows = []\<rparr>"

text \<open>Plotting functions that print nothing and return.\<close>

definition ex_plot_top_emojis :: "dataframe \<Rightarrow> event list \<times> (py_error + unit)" where
  "ex_plot_top_emojis df = ([], Inr ())"

definition ex_plot_usage_over_time :: "emoji_rec list \<Rightarrow> event list \<times> (py_error + unit)" where
  "ex_plot_usage_over_time emoji_data = ([], Inr ())"

text \<open>
  The emojis of a row, and the row with its two derived columns, as lines 62 and 63
  leave it.
\<close>

definition row_emojis :: "emoji_table \<Rightarrow> row \<Rightarrow> pystr list" where
  "row_emojis EMOJI_DATA r = extract_emojis EMOJI_DATA (cell_at r text_column)"

definition with_emojis :: "emoji_table \<Rightarrow> row \<Rightarrow> row" where
  "with_emojis EMOJI_DATA r =
     r(emojis_column \<mapsto> ListV (row_emojis EMOJI_DATA r),
       emoji_count_column \<mapsto> IntV (int (length (row_emojis EMOJI_DATA r))))"

text \<open>
  The value a reindexed bucket shows for \<open>n\<close> occurrences: the count, or
  \<^verbatim>\<open>nan\<close> when there is none.
\<close>

definition bucket :: "nat \<Rightarrow> nat option" where
  "bucket n = (if n = 0 then None else Some n)"

text \<open>
  A small reference table: the waving hand and the party popper are keys, the
  grinning face is not; only the party popper's entry has a category.
\<close>

definition waving_hand :: pystr where
  "waving_hand = [0x1F44B]"

definition party_popper :: pystr where
  "party_popper = [0x1F389]"

definition grinning_face :: pystr where
  "grinning_face = [0x1F600]"

definition ex_emoji_table :: emoji_table where
  "ex_emoji_table =
     [waving_hand \<mapsto> [py_str ''en'' \<mapsto> StrV (py_str '':waving_hand:'')],
      party_popper \<mapsto> [py_str ''en'' \<mapsto> StrV (py_str '':party_popper:''),
                        category_key \<mapsto> StrV (py_str ''Activities'')]]"

definition ex_sample_frame :: dataframe where
  "ex_sample_frame = \<lparr>df_columns = ex_columns, df_rows = [ex_kept]\<rparr>"

definition ex_occurrence :: "pystr \<Rightarrow> emoji_rec" where
  "ex_occurrence e =
     \<lparr>message_date = TsV ex_ts_2024, emoji = e, hour = Some 10,
      day_of_week = Some (py_str ''Friday''), month = Some (py_str ''March'')\<rparr>"


section \<open>The aggregator: properties\<close>

lemma loaded_Nil [simp]: "loaded rd [] = []"
  by (simp add: loaded_def)

lemma loaded_Cons:
  "loaded rd (f # fs) = (case rd f of Inl e \<Rightarrow> [] | Inr df \<Rightarrow> [(f, df)]) @ loaded rd fs"
  by (simp add: loaded_def)

lemma process_files_all_dfs:
  "all_dfs (process_files rd t fs s) = all_dfs s @ map tagged (loaded rd fs)"
proof (induction fs arbitrary: s)
  case Nil
  then show ?case by simp
next
  case (Cons f fs)
  show ?case
  proof (cases "rd f")
    case (Inl e)
    then show ?thesis by (simp add: Cons.IH loaded_Cons)
  next
    case (Inr df)
    then show ?thesis by (simp add: Cons.IH loaded_Cons tagged_def Let_def)
  qed
qed

lemma process_files_printed_extends:
  "\<exists>ys. printed (process_files rd t fs s) = printed s @ ys"
proof (induction fs arbitrary: s)
  case Nil
  then show ?case by simp
next
  case (Cons f fs)
  define s' where "s' = (case rd f of
          Inl e \<Rightarrow> s\<lparr>printed := printed s @ [ErrorProcessing f e]\<rparr>
        | Inr df \<Rightarrow>
            (let df' = assign_scalar df conversation_id (StrV (path_name (path_parent f)));
                 n = processed_files s + 1
             in \<lparr>all_dfs = all_dfs s @ [df'],
                 processed_files = n,
                 printed = (if n mod 100 = 0 then printed s @ [Progress n t]
                            else printed s)\<rparr>))"
  have step: "process_files rd t (f # fs) s = process_files rd t fs s'"
    by (simp add: s'_def)
  have "\<exists>xs. printed s' = printed s @ xs"
    by (cases "rd f") (simp_all add: s'_def Let_def)
  then obtain xs where xs: "printed s' = printed s @ xs" ..
  from Cons.IH [of s'] obtain ys where "printed (process_files rd t fs s') = printed s' @ ys" ..
  then have "printed (process_files rd t (f # fs) s) = printed s @ (xs @ ys)"
    using step xs by simp
  then show ?case ..
qed

lemma process_files_printed_mono:
  "set (printed s) \<subseteq> set (printed (process_files rd t fs s))"
proof -
  obtain ys where "printed (process_files rd t fs s) = printed s @ ys"
    using process_files_printed_extends by blast
  then show ?thesis by simp
qed

lemma process_files_logs_error:
  "f \<in> set fs \<Longrightarrow> rd f = Inl e \<Longrightarrow> ErrorProcessing f e \<in> set (printed (process_files rd t fs s))"
proof (induction fs arbitrary: s)
  case Nil
  then show ?case by simp
next
  case (Cons g fs)
  show ?case
  proof (cases "g = f")
    case True
    have "ErrorProcessing f e \<in> set (printed (s\<lparr>printed := printed s @ [ErrorProcessing f e]\<rparr>))"
      by simp
    then show ?thesis
      using process_files_printed_mono [of "s\<lparr>printed := printed s @ [ErrorProcessing f e]\<rparr>" rd t fs]
        True Cons.prems(2) by auto
  next
    case False
    then have "f \<in> set fs" using Cons.prems(1) by simp
    then show ?thesis using Cons.IH Cons.prems(2) by simp
  qed
qed

lemma loaded_filter:
  "loaded rd (filter (\<lambda>f. \<not> isl (rd f)) fs) = loaded rd fs"
  by (induction fs) (auto simp: loaded_Cons split: sum.splits)

lemma combine_written:
  "snd (combine_csv_files base fs rd) =
     (if loaded rd fs = [] then None
      else Some (output_path base, pd_concat (map tagged (loaded rd fs))))"
  by (simp add: combine_csv_files_def Let_def process_files_all_dfs)

lemma combine_printed:
  "set (printed (process_files rd (length fs) fs \<lparr>all_dfs = [], processed_files = 0, printed = []\<rparr>))
     \<subseteq> set (fst (combine_csv_files base fs rd))"
  by (auto simp add: combine_csv_files_def Let_def)

lemma combine_last_printed:
  "loaded rd fs = [] \<Longrightarrow> last (fst (combine_csv_files base fs rd)) = NoCsvFiles"
  by (simp add: combine_csv_files_def Let_def process_files_all_dfs)

lemma rows_tagged: "length (df_rows (tagged fd)) = length (df_rows (snd fd))"
  by (simp add: tagged_def assign_scalar_def)

lemma rows_pd_concat: "length (df_rows (pd_concat dfs)) = sum_list (map (\<lambda>d. length (df_rows d)) dfs)"
  by (simp add: pd_concat_def length_concat comp_def)

text \<open>
  Claim C1. When at least one input file parses, the aggregator writes the combined
  artifact to \<^verbatim>\<open>combined_messages.csv\<close> under the root, and its number of rows is
  the sum of the numbers of rows of the files that parsed.
\<close>

theorem combine_row_count:
  assumes "loaded read_csv csv_files \<noteq> []"
  shows "\<exists>df. snd (combine_csv_files base_path csv_files read_csv) = Some (output_path base_path, df)
           \<and> length (df_rows df)
               = sum_list (map (\<lambda>fd. length (df_rows (snd fd))) (loaded read_csv csv_files))"
  using assms by (simp add: combine_written rows_pd_concat comp_def rows_tagged)

lemmas ex_paths = ex_base_def ex_alice_a_def ex_alice_b_def ex_bob_def ex_broken_def py_str_def

lemma ex_loaded_mixed:
  "loaded ex_read_csv [ex_alice_a, ex_broken, ex_bob] =
     [(ex_alice_a, ex_frame [py_str ''hi'', py_str ''yo'']), (ex_bob, ex_frame [py_str ''hey''])]"
  by (simp add: loaded_def ex_read_csv_def ex_paths)

lemma ex_loaded_shared:
  "loaded ex_read_csv [ex_alice_a, ex_alice_b] =
     [(ex_alice_a, ex_frame [py_str ''hi'', py_str ''yo'']), (ex_alice_b, ex_frame [py_str ''ok''])]"
  by (simp add: loaded_def ex_read_csv_def ex_paths)

lemma ex_loaded_none: "loaded ex_read_csv [ex_broken] = []"
  by (simp add: loaded_def ex_read_csv_def ex_paths)

lemma ex_parent_names:
  "path_name (path_parent ex_alice_a) = py_str ''alice''"
  "path_name (path_parent ex_alice_b) = py_str ''alice''"
  "path_name (path_parent ex_bob) = py_str ''bob''"
  by (simp_all add: path_name_def path_parent_def ex_paths)

text \<open>
  Claim C1 on the example tree: two rows from \<^verbatim>\<open>alice/a.csv\<close>, none from the file
  that fails, one from \<^verbatim>\<open>bob/chat.csv\<close>.
\<close>

theorem combine_row_count_witness:
  "\<exists>df. snd (combine_csv_files ex_base [ex_alice_a, ex_broken, ex_bob] ex_read_csv)
            = Some (output_path ex_base, df)
        \<and> length (df_rows df) = 3"
  using combine_row_count [of ex_read_csv "[ex_alice_a, ex_broken, ex_bob]" ex_base]
  by (simp add: ex_loaded_mixed ex_frame_def numeral_3_eq_3)

lemma conversation_id_in_tagged: "conversation_id \<in> set (df_columns (tagged fd))"
  by (simp add: tagged_def assign_scalar_def)

lemma set_union_columns: "set (union_columns css) = \<Union> (set ` set css)"
  by (simp add: union_columns_def)

lemma provenance_tagged:
  "map (\<lambda>r. cell_at r conversation_id) (df_rows (tagged fd))
     = replicate (length (df_rows (snd fd))) (StrV (path_name (path_parent (fst fd))))"
  by (simp add: tagged_def assign_scalar_def cell_at_def map_replicate_const comp_def)

lemma series_pd_concat_tagged:
  assumes "L \<noteq> []"
  shows "series (pd_concat (map tagged L)) conversation_id
           = Inr (concat (map (\<lambda>fd. replicate (length (df_rows (snd fd)))
                                     (StrV (path_name (path_parent (fst fd))))) L))"
proof -
  obtain fd where "fd \<in> set L" using assms hd_in_set by blast
  then have "conversation_id \<in> set (df_columns (pd_concat (map tagged L)))"
    using conversation_id_in_tagged [of fd]
    by (simp add: pd_concat_def set_union_columns) blast
  moreover have "map (\<lambda>r. cell_at r conversation_id) (concat (map df_rows (map tagged L)))
      = concat (map (\<lambda>fd. replicate (length (df_rows (snd fd)))
                                     (StrV (path_name (path_parent (fst fd))))) L)"
    by (simp add: map_concat comp_def provenance_tagged)
  ultimately show ?thesis by (simp add: series_def pd_concat_def)
qed

lemma combine_provenance:
  "provenance (snd (combine_csv_files base fs rd))
     = concat (map (\<lambda>fd. replicate (length (df_rows (snd fd)))
                             (StrV (path_name (path_parent (fst fd))))) (loaded rd fs))"
  by (simp add: combine_written provenance_def series_pd_concat_tagged)

lemma card_set_concat_replicate:
  "card (set (concat (map (\<lambda>x. replicate (n x) (g x)) xs))) \<le> length xs"
proof -
  have "set (concat (map (\<lambda>x. replicate (n x) (g x)) xs)) \<subseteq> g ` set xs"
    by auto
  then have "card (set (concat (map (\<lambda>x. replicate (n x) (g x)) xs))) \<le> card (g ` set xs)"
    by (simp add: card_mono)
  also have "\<dots> \<le> card (set xs)" by (simp add: card_image_le)
  also have "\<dots> \<le> length xs" by (rule card_length)
  finally show ?thesis .
qed

text \<open>
  Claim C5, as amended. The provenance column of the artifact holds, for each parsed
  file in traversal order, the name of that file's parent directory once per row of the
  file. So every value is the parent directory name of a parsed file, every parsed file
  with a row contributes its parent's name, and the number of distinct values is at
  most the number \<open>N\<close> of parsed files.
\<close>

theorem provenance_parent_names:
  "provenance (snd (combine_csv_files base_path csv_files read_csv))
     = concat (map (\<lambda>fd. replicate (length (df_rows (snd fd)))
                             (StrV (path_name (path_parent (fst fd)))))
                (loaded read_csv csv_files))
   \<and> card (set (provenance (snd (combine_csv_files base_path csv_files read_csv))))
       \<le> length (loaded read_csv csv_files)"
  by (simp only: combine_provenance card_set_concat_replicate simp_thms)

text \<open>
  Claim C5, as amended, on the example tree.
\<close>

theorem provenance_parent_names_witness:
  "provenance (snd (combine_csv_files ex_base [ex_alice_a, ex_broken, ex_bob] ex_read_csv))
     = [StrV (py_str ''alice''), StrV (py_str ''alice''), StrV (py_str ''bob'')]
   \<and> card (set (provenance (snd (combine_csv_files ex_base [ex_alice_a, ex_broken, ex_bob] ex_read_csv))))
       \<le> 2"
  using provenance_parent_names [of ex_base "[ex_alice_a, ex_broken, ex_bob]" ex_read_csv]
  by (simp add: ex_loaded_mixed ex_parent_names ex_frame_def py_str_def)

text \<open>
  Claim C5 as stated fails: two files of the same folder both parse, and the
  provenance column has one distinct value, not two.
\<close>

theorem provenance_distinct_counterexample:
  "length (loaded ex_read_csv [ex_alice_a, ex_alice_b]) = 2
   \<and> card (set (provenance (snd (combine_csv_files ex_base [ex_alice_a, ex_alice_b] ex_read_csv)))) = 1"
  by (simp add: combine_provenance ex_loaded_shared ex_parent_names ex_frame_def)

text \<open>
  Claim C6. The artifact is the one the aggregator writes when the files that fail to
  parse are not there at all; each failure is printed; the rows of every file that
  parses are in the artifact, whatever failed before or after it; and when no file
  parses (none found, or all fail) nothing is written and the last line printed is the
  report that no CSV file was found or processed.
\<close>

theorem failed_file_skipped:
  "snd (combine_csv_files base_path csv_files read_csv)
     = snd (combine_csv_files base_path (filter (\<lambda>f. \<not> isl (read_csv f)) csv_files) read_csv)
   \<and> (\<forall>f e. f \<in> set csv_files \<and> read_csv f = Inl e
         \<longrightarrow> ErrorProcessing f e \<in> set (fst (combine_csv_files base_path csv_files read_csv)))
   \<and> (loaded read_csv csv_files \<noteq> []
         \<longrightarrow> (\<exists>df. snd (combine_csv_files base_path csv_files read_csv) = Some (output_path base_path, df)
                \<and> df_rows df = concat (map (\<lambda>fd. df_rows (tagged fd)) (loaded read_csv csv_files))))
   \<and> (loaded read_csv csv_files = []
         \<longrightarrow> snd (combine_csv_files base_path csv_files read_csv) = None
             \<and> last (fst (combine_csv_files base_path csv_files read_csv)) = NoCsvFiles)"
proof -
  have a: "snd (combine_csv_files base_path csv_files read_csv)
     = snd (combine_csv_files base_path (filter (\<lambda>f. \<not> isl (read_csv f)) csv_files) read_csv)"
    by (simp only: combine_written loaded_filter)
  have b: "\<forall>f e. f \<in> set csv_files \<and> read_csv f = Inl e
         \<longrightarrow> ErrorProcessing f e \<in> set (fst (combine_csv_files base_path csv_files read_csv))"
    using combine_printed process_files_logs_error by blast
  have c: "loaded read_csv csv_files \<noteq> []
         \<longrightarrow> (\<exists>df. snd (combine_csv_files base_path csv_files read_csv) = Some (output_path base_path, df)
                \<and> df_rows df = concat (map (\<lambda>fd. df_rows (tagged fd)) (loaded read_csv csv_files)))"
    by (simp add: combine_written pd_concat_def comp_def)
  have d: "loaded read_csv csv_files = []
         \<longrightarrow> snd (combine_csv_files base_path csv_files read_csv) = None
             \<and> last (fst (combine_csv_files base_path csv_files read_csv)) = NoCsvFiles"
    by (simp add: combine_written combine_last_printed)
  from a b c d show ?thesis by blast
qed

lemma ex_filter_mixed:
  "filter (\<lambda>f. \<not> isl (ex_read_csv f)) [ex_alice_a, ex_broken, ex_bob] = [ex_alice_a, ex_bob]"
  by (simp add: ex_read_csv_def ex_paths)

lemma ex_read_broken: "ex_read_csv ex_broken = Inl (ReadError (py_str ''Error tokenizing data''))"
  by (simp add: ex_read_csv_def ex_paths)

text \<open>
  Claim C6 on the example tree, with the failing file between two good ones, and with
  the failing file alone.
\<close>

theorem failed_file_skipped_witness:
  "snd (combine_csv_files ex_base [ex_alice_a, ex_broken, ex_bob] ex_read_csv)
     = snd (combine_csv_files ex_base [ex_alice_a, ex_bob] ex_read_csv)
   \<and> ErrorProcessing ex_broken (ReadError (py_str ''Error tokenizing data''))
       \<in> set (fst (combine_csv_files ex_base [ex_alice_a, ex_broken, ex_bob] ex_read_csv))
   \<and> (\<exists>df. snd (combine_csv_files ex_base [ex_alice_a, ex_broken, ex_bob] ex_read_csv)
              = Some (output_path ex_base, df)
          \<and> length (df_rows df) = 3)
   \<and> snd (combine_csv_files ex_base [ex_broken] ex_read_csv) = None
   \<and> last (fst (combine_csv_files ex_base [ex_broken] ex_read_csv)) = NoCsvFiles"
proof -
  note mixed = failed_file_skipped [of ex_base "[ex_alice_a, ex_broken, ex_bob]" ex_read_csv]
  note none = failed_file_skipped [of ex_base "[ex_broken]" ex_read_csv]
  have a: "snd (combine_csv_files ex_base [ex_alice_a, ex_broken, ex_bob] ex_read_csv)
     = snd (combine_csv_files ex_base [ex_alice_a, ex_bob] ex_read_csv)"
    using mixed [THEN conjunct1] by (simp only: ex_filter_mixed)
  have "ex_broken \<in> set [ex_alice_a, ex_broken, ex_bob]
        \<and> ex_read_csv ex_broken = Inl (ReadError (py_str ''Error tokenizing data''))"
    by (simp add: ex_read_broken)
  then have b: "ErrorProcessing ex_broken (ReadError (py_str ''Error tokenizing data''))
       \<in> set (fst (combine_csv_files ex_base [ex_alice_a, ex_broken, ex_bob] ex_read_csv))"
    by (rule mixed [THEN conjunct2, THEN conjunct1, rule_format])
  have ne: "loaded ex_read_csv [ex_alice_a, ex_broken, ex_bob] \<noteq> []"
    by (simp add: ex_loaded_mixed)
  from mixed [THEN conjunct2, THEN conjunct2, THEN conjunct1, rule_format, OF ne]
  obtain df where df: "snd (combine_csv_files ex_base [ex_alice_a, ex_broken, ex_bob] ex_read_csv)
              = Some (output_path ex_base, df)"
    and rows: "df_rows df = concat (map (\<lambda>fd. df_rows (tagged fd))
                  (loaded ex_read_csv [ex_alice_a, ex_broken, ex_bob]))"
    by blast
  have "length (df_rows df) = 3"
    by (simp add: rows ex_loaded_mixed ex_frame_def tagged_def assign_scalar_def)
  with df have c: "\<exists>df. snd (combine_csv_files ex_base [ex_alice_a, ex_broken, ex_bob] ex_read_csv)
              = Some (output_path ex_base, df)
          \<and> length (df_rows df) = 3"
    by blast
  have d: "snd (combine_csv_files ex_base [ex_broken] ex_read_csv) = None
   \<and> last (fst (combine_csv_files ex_base [ex_broken] ex_read_csv)) = NoCsvFiles"
    by (rule none [THEN conjunct2, THEN conjunct2, THEN conjunct2, rule_format, OF ex_loaded_none])
  from a b c d show ?thesis by (intro conjI) simp_all
qed

section \<open>The analyzer: loading\<close>

lemma column_names_distinct:
  "emojis_column \<noteq> emoji_count_column" "emoji_count_column \<noteq> emojis_column"
  "date_column \<noteq> emojis_column" "date_column \<noteq> emoji_count_column"
  "text_column \<noteq> emojis_column" "text_column \<noteq> emoji_count_column"
  "date_column \<noteq> text_column" "date_column \<noteq> type_column" "type_column \<noteq> text_column"
  "text_column \<noteq> date_column" "type_column \<noteq> date_column" "text_column \<noteq> type_column"
  by (simp_all add: emojis_column_def emoji_count_column_def date_column_def text_column_def
        type_column_def py_str_def)

lemma select_by_predicate:
  "map fst (filter snd (zip xs (map g xs))) = filter g xs"
  by (induction xs) auto

lemma map_zip_two_columns:
  "map (\<lambda>(y, t). h y t) (zip (map g (map a xs)) (map b xs)) = map (\<lambda>x. h (g (a x)) (b x)) xs"
  by (induction xs) auto

lemma year_of_eq_IntV:
  "year_of c = IntV y \<longleftrightarrow> (case c of TsV t \<Rightarrow> ts_year t = y | _ \<Rightarrow> False)"
  by (cases c) auto

lemma filter_2024_outgoing_Inr:
  assumes "filter_2024_outgoing df = Inr df'"
  shows "df' = df\<lparr>df_rows := filter is_2024_outgoing (df_rows df)\<rparr>"
proof -
  let ?g = "\<lambda>r. year_of (cell_at r date_column) = IntV target_year
                \<and> cell_at r type_column = StrV outgoing"
  have mask: "map (\<lambda>(y, t). y = IntV target_year \<and> t = StrV outgoing)
                (zip (map year_of (map (\<lambda>r. cell_at r date_column) (df_rows df)))
                     (map (\<lambda>r. cell_at r type_column) (df_rows df)))
              = map ?g (df_rows df)"
    by (rule map_zip_two_columns)
  have g: "?g = is_2024_outgoing"
    by (rule ext) (simp add: is_2024_outgoing_def year_of_eq_IntV)
  from assms have "df' = select_rows df (map ?g (df_rows df))"
    by (auto simp: filter_2024_outgoing_def series_def dt_year_def mask
             simp del: map_map split: if_splits sum.splits)
  then show ?thesis
    by (simp add: select_rows_def select_by_predicate g)
qed

lemma filter_2024_outgoing_succeeds:
  assumes "date_column \<in> set (df_columns df)" "type_column \<in> set (df_columns df)"
    and "df_rows df \<noteq> []"
    and "list_all is_datetime (map (\<lambda>r. cell_at r date_column) (df_rows df))"
  shows "\<exists>df'. filter_2024_outgoing df = Inr df'"
  using assms by (simp add: filter_2024_outgoing_def series_def dt_year_def)

lemma load_data_Inr:
  assumes "load_data src = (out, Inr df')"
  shows "\<exists>df. read_full src = Inr df \<and> filter_2024_outgoing df = Inr df'"
  using assms
  by (auto simp: load_data_def load_data_body_def split: sum.splits if_splits prod.splits)

lemma load_data_succeeds:
  assumes "read_header src = Inr cols" "date_column \<in> set cols" "text_column \<in> set cols"
    and "read_full src = Inr df"
    and "date_column \<in> set (df_columns df)" "type_column \<in> set (df_columns df)"
    and "df_rows df \<noteq> []"
    and "list_all is_datetime (map (\<lambda>r. cell_at r date_column) (df_rows df))"
  shows "load_data src =
           ([ReadingCsv, FoundOutgoing (length (filter is_2024_outgoing (df_rows df)))],
            Inr (df\<lparr>df_rows := filter is_2024_outgoing (df_rows df)\<rparr>))"
proof -
  obtain df' where f: "filter_2024_outgoing df = Inr df'"
    using filter_2024_outgoing_succeeds assms(5-8) by blast
  then have "df' = df\<lparr>df_rows := filter is_2024_outgoing (df_rows df)\<rparr>"
    by (rule filter_2024_outgoing_Inr)
  with f assms(1-4) show ?thesis
    by (simp add: load_data_def load_data_body_def)
qed

text \<open>A file with a header and no rows: line 42 raises, and the load fails.\<close>

lemma load_data_header_only:
  assumes "read_header src = Inr cols" "date_column \<in> set cols" "text_column \<in> set cols"
    and "read_full src = Inr df" "date_column \<in> set (df_columns df)" "df_rows df = []"
  shows "load_data src =
           ([ReadingCsv,
             ErrorLoading (AttributeError
               (py_str ''Can only use .dt accessor with datetimelike values''))],
            Inl (AttributeError (py_str ''Can only use .dt accessor with datetimelike values'')))"
  using assms
  by (simp add: load_data_def load_data_body_def filter_2024_outgoing_def series_def dt_year_def)

lemma load_data_Inr_conditions:
  assumes "load_data src = (out, Inr df')"
  shows "\<exists>cols df. read_header src = Inr cols \<and> date_column \<in> set cols \<and> text_column \<in> set cols
           \<and> read_full src = Inr df
           \<and> date_column \<in> set (df_columns df) \<and> type_column \<in> set (df_columns df)
        \<and> df_rows df \<noteq> []
           \<and> list_all is_datetime (map (\<lambda>r. cell_at r date_column) (df_rows df))"
  using assms
  by (auto simp: load_data_def load_data_body_def filter_2024_outgoing_def series_def dt_year_def
           split: sum.splits if_splits prod.splits)

text \<open>
  Claim C2. \<^verbatim>\<open>load_data\<close> returns a frame exactly when the header has both required
  columns and the full read gives a frame with rows, a datetime date column and a
  \<^verbatim>\<open>Type\<close> column (a file with a header and no rows has no datetime column, and
  the filter raises); the frame it stores then keeps a row of the file if and only if
  the row's timestamp has year 2024 and its \<^verbatim>\<open>Type\<close> is \<^verbatim>\<open>'Outgoing'\<close>, in the
  order of the file.
\<close>

theorem load_data_retains:
  "load_data src = (out, Inr df') \<longleftrightarrow>
     (\<exists>cols df. read_header src = Inr cols \<and> date_column \<in> set cols \<and> text_column \<in> set cols
        \<and> read_full src = Inr df
        \<and> date_column \<in> set (df_columns df) \<and> type_column \<in> set (df_columns df)
        \<and> df_rows df \<noteq> []
        \<and> list_all is_datetime (map (\<lambda>r. cell_at r date_column) (df_rows df))
        \<and> df' = df\<lparr>df_rows := filter is_2024_outgoing (df_rows df)\<rparr>
        \<and> out = [ReadingCsv, FoundOutgoing (length (filter is_2024_outgoing (df_rows df)))])"
proof
  assume l: "load_data src = (out, Inr df')"
  then obtain cols df where c: "read_header src = Inr cols" "date_column \<in> set cols"
      "text_column \<in> set cols" "read_full src = Inr df"
      "date_column \<in> set (df_columns df)" "type_column \<in> set (df_columns df)"
      "df_rows df \<noteq> []"
      "list_all is_datetime (map (\<lambda>r. cell_at r date_column) (df_rows df))"
    using load_data_Inr_conditions by blast
  from load_data_succeeds [OF c] l
  have "df' = df\<lparr>df_rows := filter is_2024_outgoing (df_rows df)\<rparr>"
    "out = [ReadingCsv, FoundOutgoing (length (filter is_2024_outgoing (df_rows df)))]"
    by simp_all
  with c show "\<exists>cols df. read_header src = Inr cols \<and> date_column \<in> set cols \<and> text_column \<in> set cols
        \<and> read_full src = Inr df
        \<and> date_column \<in> set (df_columns df) \<and> type_column \<in> set (df_columns df)
        \<and> df_rows df \<noteq> []
        \<and> list_all is_datetime (map (\<lambda>r. cell_at r date_column) (df_rows df))
        \<and> df' = df\<lparr>df_rows := filter is_2024_outgoing (df_rows df)\<rparr>
        \<and> out = [ReadingCsv, FoundOutgoing (length (filter is_2024_outgoing (df_rows df)))]"
    by blast
next
  assume "\<exists>cols df. read_header src = Inr cols \<and> date_column \<in> set cols \<and> text_column \<in> set cols
        \<and> read_full src = Inr df
        \<and> date_column \<in> set (df_columns df) \<and> type_column \<in> set (df_columns df)
        \<and> df_rows df \<noteq> []
        \<and> list_all is_datetime (map (\<lambda>r. cell_at r date_column) (df_rows df))
        \<and> df' = df\<lparr>df_rows := filter is_2024_outgoing (df_rows df)\<rparr>
        \<and> out = [ReadingCsv, FoundOutgoing (length (filter is_2024_outgoing (df_rows df)))]"
  then show "load_data src = (out, Inr df')"
    using load_data_succeeds by blast
qed

lemma ex_rows_filter:
  "\<not> is_2024_outgoing ex_old_outgoing" "\<not> is_2024_outgoing ex_incoming"
  "is_2024_outgoing ex_kept"
  by (simp_all add: is_2024_outgoing_def ex_old_outgoing_def ex_incoming_def ex_kept_def
        ex_message_def cell_at_def column_names_distinct ex_ts_2023_def ex_ts_2024_def
        target_year_def outgoing_def py_str_def)

lemma ex_rows_datetime:
  "is_datetime (cell_at ex_old_outgoing date_column)"
  "is_datetime (cell_at ex_incoming date_column)"
  "is_datetime (cell_at ex_kept date_column)"
  by (simp_all add: ex_old_outgoing_def ex_incoming_def ex_kept_def
        ex_message_def cell_at_def column_names_distinct)

text \<open>
  Claim C2 on the example file: the outgoing row of 2023 and the incoming row of 2024
  are excluded, the outgoing row of 2024 is retained.
\<close>

theorem load_data_retains_witness:
  "load_data ex_source =
     ([ReadingCsv, FoundOutgoing 1], Inr \<lparr>df_columns = ex_columns, df_rows = [ex_kept]\<rparr>)
   \<and> \<not> is_2024_outgoing ex_old_outgoing \<and> \<not> is_2024_outgoing ex_incoming
   \<and> is_2024_outgoing ex_kept"
proof -
  have "\<exists>cols df. read_header ex_source = Inr cols \<and> date_column \<in> set cols \<and> text_column \<in> set cols
        \<and> read_full ex_source = Inr df
        \<and> date_column \<in> set (df_columns df) \<and> type_column \<in> set (df_columns df)
        \<and> df_rows df \<noteq> []
        \<and> list_all is_datetime (map (\<lambda>r. cell_at r date_column) (df_rows df))
        \<and> \<lparr>df_columns = ex_columns, df_rows = [ex_kept]\<rparr>
            = df\<lparr>df_rows := filter is_2024_outgoing (df_rows df)\<rparr>
        \<and> [ReadingCsv, FoundOutgoing 1]
            = [ReadingCsv, FoundOutgoing (length (filter is_2024_outgoing (df_rows df)))]"
    by (simp add: ex_source_def ex_columns_def ex_rows_filter ex_rows_datetime)
  then have "load_data ex_source =
     ([ReadingCsv, FoundOutgoing 1], Inr \<lparr>df_columns = ex_columns, df_rows = [ex_kept]\<rparr>)"
    by (rule load_data_retains [THEN iffD2])
  then show ?thesis by (simp add: ex_rows_filter)
qed

lemma main_load_fails:
  assumes "load_data src = (out, Inl e)"
  shows "main E src pt pu = (StartingAnalysis # out @ [ErrorDuringAnalysis e, PleaseCheck], Inl e)"
  using assms by (simp add: main_def main_body_def and_then_def)

text \<open>
  Claim C7. When the header lacks the date column, or has it and lacks the text column,
  \<^verbatim>\<open>load_data\<close> prints the available columns, then the error, and raises the
  \<^verbatim>\<open>ValueError\<close> of the missing column, which \<^verbatim>\<open>main\<close> raises again: the run
  ends with it. When both are present \<^verbatim>\<open>load_data\<close> prints no column listing, goes
  on to read the file, and its outcome is that of the full read and the filter.
\<close>

theorem missing_column_fatal:
  assumes "read_header src = Inr cols"
  shows "(date_column \<notin> set cols \<longrightarrow>
            load_data src =
              ([AvailableColumns cols, ErrorLoading (ValueError (could_not_find date_column))],
               Inl (ValueError (could_not_find date_column)))
            \<and> snd (main EMOJI_DATA src plot_top_emojis plot_usage_over_time)
                = Inl (ValueError (could_not_find date_column)))
       \<and> (date_column \<in> set cols \<and> text_column \<notin> set cols \<longrightarrow>
            load_data src =
              ([AvailableColumns cols, ErrorLoading (ValueError (could_not_find text_column))],
               Inl (ValueError (could_not_find text_column)))
            \<and> snd (main EMOJI_DATA src plot_top_emojis plot_usage_over_time)
                = Inl (ValueError (could_not_find text_column)))
       \<and> (date_column \<in> set cols \<and> text_column \<in> set cols \<longrightarrow>
            hd (fst (load_data src)) = ReadingCsv
            \<and> AvailableColumns cols \<notin> set (fst (load_data src))
            \<and> snd (load_data src)
                = (case read_full src of Inl e \<Rightarrow> Inl e | Inr df \<Rightarrow> filter_2024_outgoing df))"
proof -
  have a: "load_data src =
              ([AvailableColumns cols, ErrorLoading (ValueError (could_not_find date_column))],
               Inl (ValueError (could_not_find date_column)))"
    if "date_column \<notin> set cols"
    using assms that by (simp add: load_data_def load_data_body_def)
  have b: "load_data src =
              ([AvailableColumns cols, ErrorLoading (ValueError (could_not_find text_column))],
               Inl (ValueError (could_not_find text_column)))"
    if "date_column \<in> set cols" "text_column \<notin> set cols"
    using assms that by (simp add: load_data_def load_data_body_def)
  have c: "hd (fst (load_data src)) = ReadingCsv
            \<and> AvailableColumns cols \<notin> set (fst (load_data src))
            \<and> snd (load_data src)
                = (case read_full src of Inl e \<Rightarrow> Inl e | Inr df \<Rightarrow> filter_2024_outgoing df)"
    if "date_column \<in> set cols" "text_column \<in> set cols"
    using assms that by (auto simp: load_data_def load_data_body_def split: sum.splits)
  show ?thesis
    using a b c main_load_fails [of src _ _ EMOJI_DATA plot_top_emojis plot_usage_over_time]
    by simp
qed

text \<open>
  Claim C7 on a file without the text column, and on the example file, which has both.
\<close>

theorem missing_column_fatal_witness:
  "load_data ex_source_no_text =
     ([AvailableColumns [date_column, type_column],
       ErrorLoading (ValueError (could_not_find text_column))],
      Inl (ValueError (could_not_find text_column)))
   \<and> snd (main ex_emoji_table ex_source_no_text (\<lambda>df. ([], Inr ())) (\<lambda>ed. ([], Inr ())))
       = Inl (ValueError (could_not_find text_column))
   \<and> hd (fst (load_data ex_source)) = ReadingCsv
   \<and> AvailableColumns ex_columns \<notin> set (fst (load_data ex_source))"
proof -
  have h1: "read_header ex_source_no_text = Inr [date_column, type_column]"
    by (simp add: ex_source_no_text_def)
  have h2: "read_header ex_source = Inr ex_columns"
    by (simp add: ex_source_def)
  have c1: "date_column \<in> set [date_column, type_column]
            \<and> text_column \<notin> set [date_column, type_column]"
    by (simp add: column_names_distinct)
  have c2: "date_column \<in> set ex_columns \<and> text_column \<in> set ex_columns"
    by (simp add: ex_columns_def)
  from missing_column_fatal [OF h1, THEN conjunct2, THEN conjunct1, rule_format, OF c1,
      of ex_emoji_table "\<lambda>df. ([], Inr ())" "\<lambda>ed. ([], Inr ())"]
    missing_column_fatal [OF h2, THEN conjunct2, THEN conjunct2, rule_format, OF c2]
  show ?thesis by simp
qed

section \<open>The analyzer: emojis, statistics and categories\<close>

lemma apply_series_total:
  "(\<And>x. x \<in> set xs \<Longrightarrow> f x = Inr (g x)) \<Longrightarrow> apply_series f xs = Inr (map g xs)"
  by (induction xs) simp_all

lemma apply_series_map:
  "(\<And>x. f (h x) = Inr (g x)) \<Longrightarrow> apply_series f (map h xs) = Inr (map g xs)"
  by (induction xs) simp_all

lemma extract_emojis_StrV:
  "extract_emojis E (StrV s) = map (\<lambda>c. [c]) (filter (\<lambda>c. [c] \<in> dom E) s)"
  by (induction s) (auto simp: extract_emojis_def)

lemma extract_emojis_not_str:
  assumes "\<And>s. v \<noteq> StrV s"
  shows "extract_emojis E v = []"
proof (cases v)
  case (StrV s)
  with assms show ?thesis by blast
qed (simp_all add: extract_emojis_def)

lemma map_zip_maps:
  "map (\<lambda>(r, v). k r v) (zip (map a xs) (map b xs)) = map (\<lambda>x. k (a x) (b x)) xs"
  by (induction xs) simp_all

lemma assign_series_rows:
  "df_rows (assign_series df c (map h (df_rows df))) = map (\<lambda>r. r(c \<mapsto> h r)) (df_rows df)"
proof -
  have "map (\<lambda>(r, v). r(c \<mapsto> v)) (zip xs (map h xs)) = map (\<lambda>r. r(c \<mapsto> h r)) xs" for xs
    by (induction xs) simp_all
  then show ?thesis by (simp add: assign_series_def)
qed

lemma assign_series_columns: "c \<in> set (df_columns (assign_series df c vs))"
  by (simp add: assign_series_def)

lemma assign_series_keeps_columns:
  "c' \<in> set (df_columns df) \<Longrightarrow> c' \<in> set (df_columns (assign_series df c vs))"
  by (simp add: assign_series_def)

lemma cell_at_with_emojis:
  "cell_at (with_emojis E r) emojis_column = ListV (row_emojis E r)"
  "cell_at (with_emojis E r) emoji_count_column = IntV (int (length (row_emojis E r)))"
  "cell_at (with_emojis E r) date_column = cell_at r date_column"
  "cell_at (with_emojis E r) text_column = cell_at r text_column"
  by (simp_all add: with_emojis_def cell_at_def column_names_distinct)

text \<open>The frame after lines 62 and 63.\<close>

lemma derived_columns:
  assumes "text_column \<in> set (df_columns df)"
  shows "\<exists>df2. df_rows df2 = map (with_emojis E) (df_rows df)
           \<and> emojis_column \<in> set (df_columns df2) \<and> emoji_count_column \<in> set (df_columns df2)
           \<and> process_emoji_data E df =
               (case expand_rows (df_rows df2) of
                  Inl e \<Rightarrow> ([ExtractingEmojis, ProcessingEmojiData], Inl e)
                | Inr emoji_data \<Rightarrow>
                    ([ExtractingEmojis, ProcessingEmojiData, FoundEmojiUses (length emoji_data)],
                     Inr (df2, emoji_data)))"
proof -
  define texts where "texts = map (\<lambda>r. cell_at r text_column) (df_rows df)"
  define df1 where "df1 = assign_series df emojis_column
                       (map (\<lambda>text. ListV (extract_emojis E text)) texts)"
  have rows1: "df_rows df1 = map (\<lambda>r. r(emojis_column \<mapsto> ListV (row_emojis E r))) (df_rows df)"
    using assign_series_rows [of df emojis_column "\<lambda>r. ListV (row_emojis E r)"]
    by (simp add: df1_def texts_def row_emojis_def comp_def)
  have s1: "series df1 emojis_column = Inr (map (\<lambda>r. ListV (row_emojis E r)) (df_rows df))"
    by (simp add: series_def df1_def assign_series_columns)
       (simp add: df1_def [symmetric] rows1 cell_at_def comp_def)
  define counts where "counts = map (\<lambda>r. IntV (int (length (row_emojis E r)))) (df_rows df)"
  have len: "apply_series py_len (map (\<lambda>r. ListV (row_emojis E r)) (df_rows df)) = Inr counts"
    unfolding counts_def by (rule apply_series_map) simp
  define df2 where "df2 = assign_series df1 emoji_count_column counts"
  have "df_rows df2 = map (\<lambda>(r, v). r(emoji_count_column \<mapsto> v)) (zip (df_rows df1) counts)"
    by (simp add: df2_def assign_series_def)
  also have "\<dots> = map (with_emojis E) (df_rows df)"
    unfolding rows1 counts_def
    by (simp only: map_zip_maps) (simp add: with_emojis_def)
  finally have rows2: "df_rows df2 = map (with_emojis E) (df_rows df)" .
  have cols: "emojis_column \<in> set (df_columns df2)" "emoji_count_column \<in> set (df_columns df2)"
    by (simp_all add: df2_def df1_def assign_series_columns assign_series_keeps_columns)
  have "process_emoji_data E df =
               (case expand_rows (df_rows df2) of
                  Inl e \<Rightarrow> ([ExtractingEmojis, ProcessingEmojiData], Inl e)
                | Inr emoji_data \<Rightarrow>
                    ([ExtractingEmojis, ProcessingEmojiData, FoundEmojiUses (length emoji_data)],
                     Inr (df2, emoji_data)))"
    using assms s1 len
    by (simp add: process_emoji_data_def series_def texts_def [symmetric] df1_def [symmetric]
          Let_def df2_def [symmetric])
  with rows2 cols show ?thesis by blast
qed

lemma emoji_record_Inr:
  "emoji_record d e = Inr rec \<Longrightarrow> message_date rec = d \<and> emoji rec = e"
  by (cases d) auto

lemma emoji_record_datetime:
  "is_datetime d \<Longrightarrow> \<exists>rec. emoji_record d e = Inr rec"
  by (cases d) auto

lemma row_records_Inr:
  "apply_series (emoji_record d) es = Inr recs
     \<Longrightarrow> map (\<lambda>rec. (message_date rec, emoji rec)) recs = map (Pair d) es"
proof (induction es arbitrary: recs)
  case Nil
  then show ?case by simp
next
  case (Cons e es)
  then show ?case
    by (auto split: sum.splits dest: emoji_record_Inr)
qed

lemma row_records_succeed:
  "es = [] \<or> is_datetime d \<Longrightarrow> \<exists>recs. apply_series (emoji_record d) es = Inr recs"
proof (induction es)
  case Nil
  then show ?case by simp
next
  case (Cons e es)
  then have d: "is_datetime d" by simp
  then obtain rec where "emoji_record d e = Inr rec"
    using emoji_record_datetime by blast
  moreover obtain recs where "apply_series (emoji_record d) es = Inr recs"
    using Cons.IH d by blast
  ultimately show ?case by simp
qed

lemma expand_rows_with_emojis:
  "expand_rows (map (with_emojis E) rows) = Inr ed
     \<Longrightarrow> map (\<lambda>rec. (message_date rec, emoji rec)) ed
           = concat (map (\<lambda>r. map (Pair (cell_at r date_column)) (row_emojis E r)) rows)"
proof (induction rows arbitrary: ed)
  case Nil
  then show ?case by simp
next
  case (Cons r rows)
  from Cons.prems obtain recs later where
    recs: "apply_series (emoji_record (cell_at r date_column)) (row_emojis E r) = Inr recs"
    and later: "expand_rows (map (with_emojis E) rows) = Inr later"
    and ed: "ed = recs @ later"
    by (auto simp: cell_at_with_emojis split: sum.splits)
  show ?case
    using row_records_Inr [OF recs] Cons.IH [OF later] by (simp add: ed)
qed

lemma expand_rows_succeeds:
  "(\<And>r. r \<in> set rows \<Longrightarrow> row_emojis E r = [] \<or> is_datetime (cell_at r date_column))
     \<Longrightarrow> \<exists>ed. expand_rows (map (with_emojis E) rows) = Inr ed"
proof (induction rows)
  case Nil
  then show ?case by simp
next
  case (Cons r rows)
  obtain recs where "apply_series (emoji_record (cell_at r date_column)) (row_emojis E r) = Inr recs"
    using row_records_succeed Cons.prems by (meson list.set_intros(1))
  moreover obtain later where "expand_rows (map (with_emojis E) rows) = Inr later"
    using Cons by (meson list.set_intros(2))
  ultimately show ?case by (simp add: cell_at_with_emojis)
qed

lemma length_expanded:
  assumes "expand_rows (map (with_emojis E) rows) = Inr ed"
  shows "length ed = sum_list (map (\<lambda>r. length (row_emojis E r)) rows)"
proof -
  have "length ed = length (map (\<lambda>rec. (message_date rec, emoji rec)) ed)" by simp
  also have "\<dots> = length (concat (map (\<lambda>r. map (Pair (cell_at r date_column)) (row_emojis E r)) rows))"
    by (simp only: expand_rows_with_emojis [OF assms])
  also have "\<dots> = sum_list (map (\<lambda>r. length (row_emojis E r)) rows)"
    by (simp add: length_concat comp_def)
  finally show ?thesis .
qed


text \<open>What a successful \<^verbatim>\<open>process_emoji_data\<close> leaves behind.\<close>

lemma process_emoji_data_Inr:
  assumes "process_emoji_data E df = (out, Inr (df2, ed))"
  shows "df_rows df2 = map (with_emojis E) (df_rows df)
         \<and> emojis_column \<in> set (df_columns df2) \<and> emoji_count_column \<in> set (df_columns df2)
         \<and> expand_rows (map (with_emojis E) (df_rows df)) = Inr ed"
proof -
  have t: "text_column \<in> set (df_columns df)"
    using assms by (auto simp: process_emoji_data_def series_def split: if_splits)
  from derived_columns [OF t, of E] obtain d2 where
    d2: "df_rows d2 = map (with_emojis E) (df_rows df)"
      "emojis_column \<in> set (df_columns d2)" "emoji_count_column \<in> set (df_columns d2)"
    and p: "process_emoji_data E df =
               (case expand_rows (df_rows d2) of
                  Inl e \<Rightarrow> ([ExtractingEmojis, ProcessingEmojiData], Inl e)
                | Inr emoji_data \<Rightarrow>
                    ([ExtractingEmojis, ProcessingEmojiData, FoundEmojiUses (length emoji_data)],
                     Inr (d2, emoji_data)))"
    by blast
  from p assms have "expand_rows (df_rows d2) = Inr ed" and "d2 = df2"
    by (auto split: sum.splits)
  with d2 show ?thesis by auto
qed

lemma process_emoji_data_succeeds:
  assumes "text_column \<in> set (df_columns df)"
    and "\<And>r. r \<in> set (df_rows df) \<Longrightarrow> row_emojis E r = [] \<or> is_datetime (cell_at r date_column)"
  shows "\<exists>df2 ed. process_emoji_data E df
           = ([ExtractingEmojis, ProcessingEmojiData, FoundEmojiUses (length ed)], Inr (df2, ed))"
proof -
  from derived_columns [OF assms(1), of E] obtain d2 where
    d2: "df_rows d2 = map (with_emojis E) (df_rows df)"
    and p: "process_emoji_data E df =
               (case expand_rows (df_rows d2) of
                  Inl e \<Rightarrow> ([ExtractingEmojis, ProcessingEmojiData], Inl e)
                | Inr emoji_data \<Rightarrow>
                    ([ExtractingEmojis, ProcessingEmojiData, FoundEmojiUses (length emoji_data)],
                     Inr (d2, emoji_data)))"
    by blast
  obtain ed where "expand_rows (map (with_emojis E) (df_rows df)) = Inr ed"
    using expand_rows_succeeds [of "df_rows df" E] assms(2) by blast
  with p d2 show ?thesis by simp
qed

lemma series_sum_ints:
  "series_sum (map (\<lambda>r. IntV (int (f r))) rows) = Inr (int (sum_list (map f rows)))"
  by (induction rows) simp_all

lemma column_sum_ints:
  assumes "rows \<noteq> [] \<or> dtype = ObjectDtype"
  shows "column_sum dtype (map (\<lambda>r. IntV (int (f r))) rows)
           = Inr (IntV (int (sum_list (map f rows))))"
  using assms by (auto simp: column_sum_def series_sum_ints)

lemma count_selected:
  "length (filter snd (zip (map w xs) (map g xs))) = length (filter g xs)"
  by (induction xs) simp_all

lemma series_with_emojis:
  assumes "df_rows df2 = map (with_emojis E) rows"
    and "emojis_column \<in> set (df_columns df2)" "emoji_count_column \<in> set (df_columns df2)"
  shows "series df2 emoji_count_column = Inr (map (\<lambda>r. IntV (int (length (row_emojis E r)))) rows)"
    and "series df2 emojis_column = Inr (map (\<lambda>r. ListV (row_emojis E r)) rows)"
  using assms by (simp_all add: series_def cell_at_with_emojis comp_def)

lemma basic_stats_with_emojis:
  assumes "df_rows df2 = map (with_emojis E) rows"
    and "emojis_column \<in> set (df_columns df2)" "emoji_count_column \<in> set (df_columns df2)"
    and "rows \<noteq> [] \<or> dtype = ObjectDtype"
  shows "basic_stats dtype df2 =
           (let m = length (filter (\<lambda>r. row_emojis E r \<noteq> []) rows);
                out = [StatsHeader,
                       TotalEmojis (int (sum_list (map (\<lambda>r. length (row_emojis E r)) rows))),
                       UniqueEmojis (length (remdups (concat (map (row_emojis E) rows)))),
                       MessagesWithEmojis m]
            in if rows = [] then (out, Inl ZeroDivisionError)
               else (out @ [PercentageWithEmojis (of_nat m / of_nat (length rows) * 100)], Inr ()))"
proof -
  have iter: "apply_series py_iter (map (\<lambda>r. ListV (row_emojis E r)) rows)
                = Inr (map (row_emojis E) rows)"
    by (rule apply_series_map) simp
  have gt: "apply_series gt_zero (map (\<lambda>r. IntV (int (length (row_emojis E r)))) rows)
                = Inr (map (\<lambda>r. row_emojis E r \<noteq> []) rows)"
    by (rule apply_series_map) simp
  have sel: "length (df_rows (select_rows df2 (map (\<lambda>r. row_emojis E r \<noteq> []) rows)))
               = length (filter (\<lambda>r. row_emojis E r \<noteq> []) rows)"
    by (simp add: select_rows_def assms(1) count_selected)
  show ?thesis
    unfolding basic_stats_def series_with_emojis [OF assms(1-3)] sum.case
      column_sum_ints [OF assms(4)] iter gt Let_def sel format_grouped.simps
    by (simp add: assms(1))
qed

lemma basic_stats_empty_str:
  assumes "df_rows df2 = []"
    and "emojis_column \<in> set (df_columns df2)" "emoji_count_column \<in> set (df_columns df2)"
  shows "basic_stats StrDtype df2 = ([StatsHeader], Inl (ValueError cannot_specify))"
  using assms by (simp add: basic_stats_def series_def column_sum_def)

text \<open>
  Claim C10, as amended. After \<^verbatim>\<open>process_emoji_data\<close> on a frame that has rows, or
  on an empty one whose count column sums to the integer 0 (dtype \<^verbatim>\<open>object\<close>, as
  under pandas 2), the sum of the \<^verbatim>\<open>emoji_count\<close> column, which
  \<^verbatim>\<open>basic_stats\<close> prints as the total, is the number of records of
  \<^verbatim>\<open>emoji_data\<close>.
\<close>

theorem total_equals_occurrences:
  assumes "process_emoji_data EMOJI_DATA df = (out, Inr (df2, emoji_data))"
    and "df_rows df \<noteq> [] \<or> dtype = ObjectDtype"
  shows "(\<exists>counts. series df2 emoji_count_column = Inr counts
            \<and> column_sum dtype counts = Inr (IntV (int (length emoji_data))))
       \<and> take 2 (fst (basic_stats dtype df2))
           = [StatsHeader, TotalEmojis (int (length emoji_data))]"
proof -
  note p = process_emoji_data_Inr [OF assms(1)]
  have len: "length emoji_data
               = sum_list (map (\<lambda>r. length (row_emojis EMOJI_DATA r)) (df_rows df))"
    using p by (simp add: length_expanded)
  have "series df2 emoji_count_column
          = Inr (map (\<lambda>r. IntV (int (length (row_emojis EMOJI_DATA r)))) (df_rows df))"
    using p by (simp add: series_with_emojis)
  moreover have "column_sum dtype
            (map (\<lambda>r. IntV (int (length (row_emojis EMOJI_DATA r)))) (df_rows df))
          = Inr (IntV (int (length emoji_data)))"
    by (simp only: column_sum_ints [OF assms(2)] len)
  moreover have "take 2 (fst (basic_stats dtype df2))
          = [StatsHeader, TotalEmojis (int (length emoji_data))]"
    using p assms(2)
    by (simp add: basic_stats_with_emojis [of df2 EMOJI_DATA "df_rows df" dtype] Let_def len)
  ultimately show ?thesis by blast
qed

lemma main_stats_fails:
  assumes "load_data src = (o1, Inr df)" "process_emoji_data E df = (o2, Inr (df2, ed))"
    and "basic_stats (text_dtype src) df2 = (o3, Inl e)"
  shows "main E src pt pu
           = (StartingAnalysis # o1 @ o2 @ o3 @ [ErrorDuringAnalysis e, PleaseCheck], Inl e)"
  using assms by (simp add: main_def main_body_def and_then_def)

text \<open>
  Claim C8, as amended. When no row was retained, \<^verbatim>\<open>basic_stats\<close> has no guard and
  raises on the frame \<^verbatim>\<open>process_emoji_data\<close> leaves: where the empty count column
  sums to the integer 0 (dtype \<^verbatim>\<open>object\<close>, pandas 2) it prints the header and three
  zero statistics and then raises \<^verbatim>\<open>ZeroDivisionError\<close> at the percentage; where it
  sums to the empty string (dtype \<^verbatim>\<open>str\<close>, pandas 3) it prints the header and
  raises \<^verbatim>\<open>ValueError\<close> when it formats the total. \<^verbatim>\<open>main\<close> ends with that error
  when the frame is the one \<^verbatim>\<open>load_data\<close> returned. With at least one row
  \<^verbatim>\<open>basic_stats\<close> returns, and the last line it prints is the percentage of rows
  that have an emoji.
\<close>

theorem empty_result_division_by_zero:
  assumes "process_emoji_data EMOJI_DATA df = (out, Inr (df2, emoji_data))"
  shows "(df_rows df = [] \<longrightarrow>
            basic_stats ObjectDtype df2 =
              ([StatsHeader, TotalEmojis 0, UniqueEmojis 0, MessagesWithEmojis 0],
               Inl ZeroDivisionError)
            \<and> basic_stats StrDtype df2 = ([StatsHeader], Inl (ValueError cannot_specify))
            \<and> (load_data src = (loaded_out, Inr df) \<longrightarrow>
                 snd (main EMOJI_DATA src plot_top_emojis plot_usage_over_time)
                   = (case text_dtype src of
                        ObjectDtype \<Rightarrow> Inl ZeroDivisionError
                      | StrDtype \<Rightarrow> Inl (ValueError cannot_specify))))
       \<and> (df_rows df \<noteq> [] \<longrightarrow>
            snd (basic_stats dtype df2) = Inr ()
            \<and> last (fst (basic_stats dtype df2)) =
                PercentageWithEmojis
                  (of_nat (length (filter (\<lambda>r. row_emojis EMOJI_DATA r \<noteq> []) (df_rows df)))
                   / of_nat (length (df_rows df)) * 100))"
proof -
  note p = process_emoji_data_Inr [OF assms]
  have a: "basic_stats ObjectDtype df2 =
              ([StatsHeader, TotalEmojis 0, UniqueEmojis 0, MessagesWithEmojis 0],
               Inl ZeroDivisionError)"
    if "df_rows df = []"
    using p that
    by (simp add: basic_stats_with_emojis [of df2 EMOJI_DATA "df_rows df" ObjectDtype] Let_def)
  have s: "basic_stats StrDtype df2 = ([StatsHeader], Inl (ValueError cannot_specify))"
    if "df_rows df = []"
    using p that by (simp add: basic_stats_empty_str)
  have m: "snd (main EMOJI_DATA src plot_top_emojis plot_usage_over_time)
             = (case text_dtype src of
                  ObjectDtype \<Rightarrow> Inl ZeroDivisionError
                | StrDtype \<Rightarrow> Inl (ValueError cannot_specify))"
    if e: "df_rows df = []" and l: "load_data src = (loaded_out, Inr df)"
  proof (cases "text_dtype src")
    case ObjectDtype
    with a [OF e] have "basic_stats (text_dtype src) df2 =
              ([StatsHeader, TotalEmojis 0, UniqueEmojis 0, MessagesWithEmojis 0],
               Inl ZeroDivisionError)"
      by simp
    from main_stats_fails [OF l assms this] ObjectDtype show ?thesis by simp
  next
    case StrDtype
    with s [OF e] have "basic_stats (text_dtype src) df2
                          = ([StatsHeader], Inl (ValueError cannot_specify))"
      by simp
    from main_stats_fails [OF l assms this] StrDtype show ?thesis by simp
  qed
  have b: "snd (basic_stats dtype df2) = Inr ()
            \<and> last (fst (basic_stats dtype df2)) =
                PercentageWithEmojis
                  (of_nat (length (filter (\<lambda>r. row_emojis EMOJI_DATA r \<noteq> []) (df_rows df)))
                   / of_nat (length (df_rows df)) * 100)"
    if "df_rows df \<noteq> []"
    using p that
    by (simp add: basic_stats_with_emojis [of df2 EMOJI_DATA "df_rows df" dtype] Let_def)
  from a s m b show ?thesis by blast
qed

lemma single_row_expanded:
  assumes "text_column \<in> set (df_columns df)" "df_rows df = [r]"
    and "cell_at r date_column = TsV t"
  shows "\<exists>df2 ed. process_emoji_data E df
             = ([ExtractingEmojis, ProcessingEmojiData, FoundEmojiUses (length (row_emojis E r))],
                Inr (df2, ed))
           \<and> map emoji ed = row_emojis E r
           \<and> map message_date ed = replicate (length (row_emojis E r)) (TsV t)"
proof -
  have "\<And>r'. r' \<in> set (df_rows df) \<Longrightarrow> row_emojis E r' = [] \<or> is_datetime (cell_at r' date_column)"
    using assms(2,3) by simp
  from process_emoji_data_succeeds [OF assms(1) this] obtain df2 ed where
    p: "process_emoji_data E df
           = ([ExtractingEmojis, ProcessingEmojiData, FoundEmojiUses (length ed)], Inr (df2, ed))"
    by blast
  from process_emoji_data_Inr [OF p] have e: "expand_rows (map (with_emojis E) [r]) = Inr ed"
    by (simp add: assms(2))
  have pairs: "map (\<lambda>rec. (message_date rec, emoji rec)) ed = map (Pair (TsV t)) (row_emojis E r)"
    using expand_rows_with_emojis [OF e] by (simp add: assms(3))
  have "map emoji ed = map snd (map (\<lambda>rec. (message_date rec, emoji rec)) ed)"
    by (simp add: comp_def)
  then have em: "map emoji ed = row_emojis E r"
    by (simp only: pairs) (simp add: comp_def)
  have "map message_date ed = map fst (map (\<lambda>rec. (message_date rec, emoji rec)) ed)"
    by (simp add: comp_def)
  then have md: "map message_date ed = replicate (length (row_emojis E r)) (TsV t)"
    by (simp only: pairs) (simp add: comp_def map_replicate_const)
  have "length ed = length (row_emojis E r)"
    using em by (metis length_map)
  with p em md show ?thesis by auto
qed

text \<open>
  Claim C3. \<^verbatim>\<open>extract_emojis\<close> gives no emoji for a value that is not a string, and
  for a string the one-character strings that are keys of the reference table, in
  order. When the waving hand and the party popper are keys and the letters and the
  space of the sample are not, the sample text gives exactly three emojis, and a frame
  whose single row holds it expands to exactly three records, one for each, all with
  the timestamp of the row.
\<close>

theorem extract_emojis_sample:
  assumes "EMOJI_DATA waving_hand \<noteq> None" "EMOJI_DATA party_popper \<noteq> None"
    and "\<forall>c \<in> set (py_str ''Hi there''). EMOJI_DATA [c] = None"
  shows "((\<forall>s. v \<noteq> StrV s) \<longrightarrow> extract_emojis EMOJI_DATA v = [])
       \<and> extract_emojis EMOJI_DATA (StrV s)
           = map (\<lambda>c. [c]) (filter (\<lambda>c. [c] \<in> dom EMOJI_DATA) s)
       \<and> extract_emojis EMOJI_DATA (StrV sample_text) = [waving_hand, party_popper, party_popper]
       \<and> (text_column \<in> set (df_columns df) \<and> df_rows df = [r]
            \<and> cell_at r text_column = StrV sample_text \<and> cell_at r date_column = TsV t \<longrightarrow>
           (\<exists>df2 ed. process_emoji_data EMOJI_DATA df
                        = ([ExtractingEmojis, ProcessingEmojiData, FoundEmojiUses 3], Inr (df2, ed))
                \<and> map emoji ed = [waving_hand, party_popper, party_popper]
                \<and> map message_date ed = [TsV t, TsV t, TsV t]))"
proof -
  have a: "(\<forall>s. v \<noteq> StrV s) \<longrightarrow> extract_emojis EMOJI_DATA v = []"
    using extract_emojis_not_str by blast
  have b: "extract_emojis EMOJI_DATA (StrV s)
           = map (\<lambda>c. [c]) (filter (\<lambda>c. [c] \<in> dom EMOJI_DATA) s)"
    by (rule extract_emojis_StrV)
  have c: "extract_emojis EMOJI_DATA (StrV sample_text) = [waving_hand, party_popper, party_popper]"
    using assms
    by (simp add: extract_emojis_StrV sample_text_def py_str_def waving_hand_def
          party_popper_def domIff)
  have d: "\<exists>df2 ed. process_emoji_data EMOJI_DATA df
                        = ([ExtractingEmojis, ProcessingEmojiData, FoundEmojiUses 3], Inr (df2, ed))
                \<and> map emoji ed = [waving_hand, party_popper, party_popper]
                \<and> map message_date ed = [TsV t, TsV t, TsV t]"
    if h: "text_column \<in> set (df_columns df)" "df_rows df = [r]"
      "cell_at r text_column = StrV sample_text" "cell_at r date_column = TsV t"
  proof -
    have re: "row_emojis EMOJI_DATA r = [waving_hand, party_popper, party_popper]"
      by (simp add: row_emojis_def h(3) c)
    from single_row_expanded [OF h(1,2,4), of EMOJI_DATA] show ?thesis
      by (simp add: re numeral_3_eq_3)
  qed
  from a b c d show ?thesis by blast
qed

lemma ex_table_keys:
  "ex_emoji_table waving_hand \<noteq> None" "ex_emoji_table party_popper \<noteq> None"
  "\<forall>c \<in> set (py_str ''Hi there''). ex_emoji_table [c] = None"
  "ex_emoji_table grinning_face = None"
  by (simp_all add: ex_emoji_table_def waving_hand_def party_popper_def grinning_face_def
        py_str_def)

lemma ex_kept_cells:
  "cell_at ex_kept text_column = StrV sample_text"
  "cell_at ex_kept date_column = TsV ex_ts_2024"
  by (simp_all add: ex_kept_def ex_message_def cell_at_def column_names_distinct)

lemma ex_sample_frame_shape:
  "text_column \<in> set (df_columns ex_sample_frame)" "df_rows ex_sample_frame = [ex_kept]"
  by (simp_all add: ex_sample_frame_def ex_columns_def)

text \<open>
  Claim C3 with the example table and the sample message.
\<close>

theorem extract_emojis_sample_witness:
  "extract_emojis ex_emoji_table NaN = []
   \<and> extract_emojis ex_emoji_table (StrV sample_text) = [waving_hand, party_popper, party_popper]
   \<and> length (extract_emojis ex_emoji_table (StrV sample_text)) = 3
   \<and> (\<exists>df2 ed. process_emoji_data ex_emoji_table ex_sample_frame
                  = ([ExtractingEmojis, ProcessingEmojiData, FoundEmojiUses 3], Inr (df2, ed))
          \<and> map emoji ed = [waving_hand, party_popper, party_popper]
          \<and> map message_date ed = [TsV ex_ts_2024, TsV ex_ts_2024, TsV ex_ts_2024])"
proof -
  note t = extract_emojis_sample [OF ex_table_keys(1,2,3), of NaN _ ex_sample_frame ex_kept ex_ts_2024]
  have a: "extract_emojis ex_emoji_table NaN = []"
    using t [THEN conjunct1] by simp
  have c: "extract_emojis ex_emoji_table (StrV sample_text) = [waving_hand, party_popper, party_popper]"
    by (rule t [THEN conjunct2, THEN conjunct2, THEN conjunct1])
  have d: "\<exists>df2 ed. process_emoji_data ex_emoji_table ex_sample_frame
                  = ([ExtractingEmojis, ProcessingEmojiData, FoundEmojiUses 3], Inr (df2, ed))
          \<and> map emoji ed = [waving_hand, party_popper, party_popper]
          \<and> map message_date ed = [TsV ex_ts_2024, TsV ex_ts_2024, TsV ex_ts_2024]"
    by (rule t [THEN conjunct2, THEN conjunct2, THEN conjunct2, rule_format])
       (simp add: ex_sample_frame_shape ex_kept_cells)
  from a c d show ?thesis by simp
qed

lemma ex_row_emojis: "row_emojis ex_emoji_table ex_kept = [waving_hand, party_popper, party_popper]"
  using ex_table_keys(1,2,3)
  by (simp add: row_emojis_def ex_kept_cells extract_emojis_StrV sample_text_def py_str_def
        waving_hand_def party_popper_def domIff)

lemma ex_sample_processed:
  "\<exists>df2 ed. process_emoji_data ex_emoji_table ex_sample_frame
        = ([ExtractingEmojis, ProcessingEmojiData, FoundEmojiUses 3], Inr (df2, ed))
      \<and> map emoji ed = [waving_hand, party_popper, party_popper]"
proof -
  have three: "length (row_emojis ex_emoji_table ex_kept) = 3"
    by (simp add: ex_row_emojis)
  from single_row_expanded [OF ex_sample_frame_shape ex_kept_cells(2), of ex_emoji_table]
  obtain df2 ed where
    "process_emoji_data ex_emoji_table ex_sample_frame
        = ([ExtractingEmojis, ProcessingEmojiData,
            FoundEmojiUses (length (row_emojis ex_emoji_table ex_kept))], Inr (df2, ed))"
    "map emoji ed = row_emojis ex_emoji_table ex_kept"
    by blast
  then have "process_emoji_data ex_emoji_table ex_sample_frame
        = ([ExtractingEmojis, ProcessingEmojiData, FoundEmojiUses 3], Inr (df2, ed))
      \<and> map emoji ed = [waving_hand, party_popper, party_popper]"
    by (simp add: ex_row_emojis)
  then show ?thesis by (intro exI)
qed

text \<open>
  Claim C10, as amended, on the sample message: three records, and a printed total of
  three.
\<close>

theorem total_equals_occurrences_witness:
  "\<exists>df2 ed. process_emoji_data ex_emoji_table ex_sample_frame
        = ([ExtractingEmojis, ProcessingEmojiData, FoundEmojiUses 3], Inr (df2, ed))
      \<and> length ed = 3
      \<and> take 2 (fst (basic_stats StrDtype df2)) = [StatsHeader, TotalEmojis 3]"
proof -
  from ex_sample_processed obtain df2 ed where
    p: "process_emoji_data ex_emoji_table ex_sample_frame
        = ([ExtractingEmojis, ProcessingEmojiData, FoundEmojiUses 3], Inr (df2, ed))"
    and e: "map emoji ed = [waving_hand, party_popper, party_popper]"
    by (elim exE conjE)
  have "length (map emoji ed) = 3" by (simp only: e) simp
  then have l: "length ed = 3" by simp
  have ne: "df_rows ex_sample_frame \<noteq> [] \<or> StrDtype = ObjectDtype"
    by (simp add: ex_sample_frame_shape)
  from total_equals_occurrences [OF p ne]
  have "take 2 (fst (basic_stats StrDtype df2)) = [StatsHeader, TotalEmojis 3]"
    by (simp add: l)
  with p l show ?thesis by (intro exI conjI)
qed

lemma ex_empty_process:
  "process_emoji_data E ex_empty_frame
     = ([ExtractingEmojis, ProcessingEmojiData, FoundEmojiUses 0], Inr (ex_empty_processed, []))"
  by (simp add: process_emoji_data_def series_def assign_series_def ex_empty_frame_def
        ex_empty_processed_def ex_columns_def Let_def emojis_column_def
        emoji_count_column_def date_column_def type_column_def text_column_def py_str_def)

lemma ex_empty_processed_columns:
  "df_rows ex_empty_processed = []"
  "emojis_column \<in> set (df_columns ex_empty_processed)"
  "emoji_count_column \<in> set (df_columns ex_empty_processed)"
  by (simp_all add: ex_empty_processed_def)

text \<open>
  Claim C10 as stated fails for an empty dataset when the text column has the dtype
  \<^verbatim>\<open>str\<close> (pandas 3): there is no record, the sum of the empty count column is the
  empty string, not 0, and no total is printed.
\<close>

theorem total_equals_occurrences_counterexample:
  "process_emoji_data ex_emoji_table ex_empty_frame
     = ([ExtractingEmojis, ProcessingEmojiData, FoundEmojiUses 0], Inr (ex_empty_processed, []))
   \<and> series ex_empty_processed emoji_count_column = Inr []
   \<and> column_sum StrDtype [] = Inr (StrV [])
   \<and> fst (basic_stats StrDtype ex_empty_processed) = [StatsHeader]"
  by (simp add: ex_empty_process basic_stats_empty_str ex_empty_processed_columns
        series_def column_sum_def)

lemma ex_old_loaded:
  "load_data ex_source_old = ([ReadingCsv, FoundOutgoing 0], Inr ex_empty_frame)"
proof -
  have "load_data ex_source_old =
           ([ReadingCsv, FoundOutgoing (length (filter is_2024_outgoing [ex_old_outgoing]))],
            Inr (\<lparr>df_columns = ex_columns, df_rows = [ex_old_outgoing]\<rparr>
                   \<lparr>df_rows := filter is_2024_outgoing [ex_old_outgoing]\<rparr>))"
    using load_data_succeeds [of ex_source_old ex_columns
        "\<lparr>df_columns = ex_columns, df_rows = [ex_old_outgoing]\<rparr>"]
    by (simp add: ex_source_old_def ex_columns_def ex_rows_datetime)
  then show ?thesis by (simp add: ex_rows_filter ex_empty_frame_def)
qed

lemma ex_old_str_loaded:
  "load_data ex_source_old_str = ([ReadingCsv, FoundOutgoing 0], Inr ex_empty_frame)"
proof -
  have "load_data ex_source_old_str =
           ([ReadingCsv, FoundOutgoing (length (filter is_2024_outgoing [ex_old_outgoing]))],
            Inr (\<lparr>df_columns = ex_columns, df_rows = [ex_old_outgoing]\<rparr>
                   \<lparr>df_rows := filter is_2024_outgoing [ex_old_outgoing]\<rparr>))"
    using load_data_succeeds [of ex_source_old_str ex_columns
        "\<lparr>df_columns = ex_columns, df_rows = [ex_old_outgoing]\<rparr>"]
    by (simp add: ex_source_old_str_def ex_columns_def ex_rows_datetime)
  then show ?thesis by (simp add: ex_rows_filter ex_empty_frame_def)
qed

text \<open>
  Claim C8, as amended, on a file whose only message is of 2023, so that the filter
  retains nothing, read with pandas 2, and on the sample message, where the percentage
  is 100.
\<close>

theorem empty_result_division_by_zero_witness:
  "load_data ex_source_old = ([ReadingCsv, FoundOutgoing 0], Inr ex_empty_frame)
   \<and> df_rows ex_empty_frame = []
   \<and> basic_stats ObjectDtype ex_empty_processed =
       ([StatsHeader, TotalEmojis 0, UniqueEmojis 0, MessagesWithEmojis 0],
        Inl ZeroDivisionError)
   \<and> snd (main ex_emoji_table ex_source_old ex_plot_top_emojis ex_plot_usage_over_time)
       = Inl ZeroDivisionError
   \<and> (\<exists>out df2 ed. process_emoji_data ex_emoji_table ex_sample_frame = (out, Inr (df2, ed))
        \<and> snd (basic_stats ObjectDtype df2) = Inr ()
        \<and> last (fst (basic_stats ObjectDtype df2)) = PercentageWithEmojis 100)"
proof -
  note t = empty_result_division_by_zero
      [where EMOJI_DATA = ex_emoji_table and src = ex_source_old
         and loaded_out = "[ReadingCsv, FoundOutgoing 0]"
         and plot_top_emojis = ex_plot_top_emojis
         and plot_usage_over_time = ex_plot_usage_over_time,
       OF ex_empty_process, THEN conjunct1, rule_format]
  have e: "df_rows ex_empty_frame = []" by (simp add: ex_empty_frame_def)
  have s: "basic_stats ObjectDtype ex_empty_processed =
            ([StatsHeader, TotalEmojis 0, UniqueEmojis 0, MessagesWithEmojis 0],
             Inl ZeroDivisionError)"
    using t [OF e, THEN conjunct1] .
  have "snd (main ex_emoji_table ex_source_old ex_plot_top_emojis ex_plot_usage_over_time)
       = (case text_dtype ex_source_old of
            ObjectDtype \<Rightarrow> Inl ZeroDivisionError
          | StrDtype \<Rightarrow> Inl (ValueError cannot_specify))"
    using t [OF e, THEN conjunct2, THEN conjunct2, rule_format, OF ex_old_loaded] .
  then have m: "snd (main ex_emoji_table ex_source_old ex_plot_top_emojis ex_plot_usage_over_time)
       = Inl ZeroDivisionError"
    by (simp add: ex_source_old_def)
  from ex_sample_processed obtain d2 e2 where
    q: "process_emoji_data ex_emoji_table ex_sample_frame
        = ([ExtractingEmojis, ProcessingEmojiData, FoundEmojiUses 3], Inr (d2, e2))"
    by (elim exE conjE)
  have "snd (basic_stats ObjectDtype d2) = Inr ()
        \<and> last (fst (basic_stats ObjectDtype d2)) = PercentageWithEmojis 100"
    using empty_result_division_by_zero [where dtype = ObjectDtype, OF q, THEN conjunct2]
    by (simp add: ex_sample_frame_shape ex_row_emojis)
  then have "snd (basic_stats ObjectDtype d2) = Inr ()"
    and "last (fst (basic_stats ObjectDtype d2)) = PercentageWithEmojis 100"
    by simp_all
  with q have b: "\<exists>out df2 ed.
        process_emoji_data ex_emoji_table ex_sample_frame = (out, Inr (df2, ed))
        \<and> snd (basic_stats ObjectDtype df2) = Inr ()
        \<and> last (fst (basic_stats ObjectDtype df2)) = PercentageWithEmojis 100"
    by (intro exI conjI)
  from ex_old_loaded e s m b show ?thesis by (intro conjI)
qed

text \<open>
  Claim C8 as stated fails when the text column has the dtype \<^verbatim>\<open>str\<close> (pandas 3):
  for the same file the filter retains nothing, and the run ends with the
  \<^verbatim>\<open>ValueError\<close> of the total's format, before any division.
\<close>

theorem empty_result_division_by_zero_counterexample:
  "load_data ex_source_old_str = ([ReadingCsv, FoundOutgoing 0], Inr ex_empty_frame)
   \<and> process_emoji_data ex_emoji_table ex_empty_frame
       = ([ExtractingEmojis, ProcessingEmojiData, FoundEmojiUses 0], Inr (ex_empty_processed, []))
   \<and> basic_stats StrDtype ex_empty_processed = ([StatsHeader], Inl (ValueError cannot_specify))
   \<and> snd (main ex_emoji_table ex_source_old_str ex_plot_top_emojis ex_plot_usage_over_time)
       = Inl (ValueError cannot_specify)"
proof -
  have s: "basic_stats StrDtype ex_empty_processed = ([StatsHeader], Inl (ValueError cannot_specify))"
    by (simp add: basic_stats_empty_str ex_empty_processed_columns)
  have d: "text_dtype ex_source_old_str = StrDtype"
    by (simp add: ex_source_old_str_def)
  from s d have s': "basic_stats (text_dtype ex_source_old_str) ex_empty_processed
                       = ([StatsHeader], Inl (ValueError cannot_specify))"
    by simp
  have "snd (main ex_emoji_table ex_source_old_str ex_plot_top_emojis ex_plot_usage_over_time)
       = Inl (ValueError cannot_specify)"
    using main_stats_fails [where pt = ex_plot_top_emojis and pu = ex_plot_usage_over_time,
        OF ex_old_str_loaded ex_empty_process [of ex_emoji_table] s']
    by simp
  with ex_old_str_loaded ex_empty_process [of ex_emoji_table] s show ?thesis
    by (intro conjI)
qed







section \<open>The analyzer: time buckets\<close>

lemma present_keys:
  "set [k. Some k \<leftarrow> keys] = {k. Some k \<in> set keys}"
  by (induction keys) (auto split: option.splits)

lemma count_present:
  "count_list [k. Some k \<leftarrow> keys] k = count_list keys (Some k)"
  by (induction keys) (auto split: option.splits)

lemma bucket_count:
  "bucket (count_list keys (Some k))
     = (if Some k \<in> set keys then Some (count_list keys (Some k)) else None)"
  by (simp add: bucket_def count_list_0_iff)

lemma map_of_tabulate:
  "map_of (map (\<lambda>k. (k, f k)) xs) k = (if k \<in> set xs then Some (f k) else None)"
  by (induction xs) auto

lemma map_of_groupby_size:
  "map_of (groupby_size keys) k = bucket (count_list keys (Some k))"
  by (simp add: groupby_size_def Let_def map_of_tabulate present_keys count_present bucket_count)

lemma reindex_groupby_size:
  "reindex (groupby_size keys) labels
     = map (\<lambda>l. (l, bucket (count_list keys (Some l)))) labels"
  by (simp add: reindex_def map_of_groupby_size)

lemma groupby_size_keys:
  "map fst (groupby_size keys) = sort (remdups [k. Some k \<leftarrow> keys])"
  by (simp add: groupby_size_def Let_def comp_def)

lemma groupby_size_sorted: "sorted (map fst (groupby_size keys))"
  by (simp only: groupby_size_keys sorted_sort)

lemma groupby_size_distinct: "distinct (map fst (groupby_size keys))"
  by (simp only: groupby_size_keys distinct_sort distinct_remdups)

lemma groupby_size_set: "set (map fst (groupby_size keys)) = {k. Some k \<in> set keys}"
  by (simp only: groupby_size_keys set_sort set_remdups present_keys)

lemma groupby_size_counts:
  assumes "(k, n) \<in> set (groupby_size keys)"
  shows "n = count_list keys (Some k) \<and> 0 < n"
proof -
  from assms have k: "k \<in> set [k. Some k \<leftarrow> keys]" and n: "n = count_list [k. Some k \<leftarrow> keys] k"
    by (auto simp: groupby_size_def Let_def)
  from k have "Some k \<in> set keys" by (simp add: present_keys)
  then have "count_list keys (Some k) \<noteq> 0"
    by (simp add: count_list_0_iff)
  then have "0 < count_list keys (Some k)"
    by simp
  with n show ?thesis by (simp add: count_present)
qed

text \<open>
  Claim C4, as amended. For a non-empty \<^verbatim>\<open>emoji_data\<close> the figure is drawn; its
  weekday trace lists the seven weekdays from Monday to Sunday and its month trace the
  twelve months from January to December, each with the number of its occurrences, or
  with \<^verbatim>\<open>nan\<close> (not zero) when it has none; its hourly trace lists only the hours
  that occur, in ascending order and without repetition, each with its positive count.
\<close>

theorem time_buckets:
  assumes "emoji_data \<noteq> []"
  shows "\<exists>fig. plot_time_patterns emoji_data = ([GeneratingTimePatterns], Inr fig)
           \<and> daily_trace fig
               = map (\<lambda>d. (d, bucket (count_list (map day_of_week emoji_data) (Some d)))) days_order
           \<and> monthly_trace fig
               = map (\<lambda>m. (m, bucket (count_list (map month emoji_data) (Some m)))) months_order
           \<and> sorted (map fst (hourly_trace fig)) \<and> distinct (map fst (hourly_trace fig))
           \<and> set (map fst (hourly_trace fig)) = {h. Some h \<in> set (map hour emoji_data)}
           \<and> (\<forall>(h, n) \<in> set (hourly_trace fig).
                 n = count_list (map hour emoji_data) (Some h) \<and> 0 < n)"
proof -
  define fig where "fig =
    \<lparr>hourly_trace = groupby_size (map hour emoji_data),
     daily_trace = reindex (groupby_size (map day_of_week emoji_data)) days_order,
     monthly_trace = reindex (groupby_size (map month emoji_data)) months_order\<rparr>"
  have p: "plot_time_patterns emoji_data = ([GeneratingTimePatterns], Inr fig)"
    using assms by (simp add: plot_time_patterns_def fig_def Let_def)
  have d: "daily_trace fig
               = map (\<lambda>d. (d, bucket (count_list (map day_of_week emoji_data) (Some d)))) days_order"
    by (simp add: fig_def reindex_groupby_size)
  have m: "monthly_trace fig
               = map (\<lambda>m. (m, bucket (count_list (map month emoji_data) (Some m)))) months_order"
    by (simp add: fig_def reindex_groupby_size)
  have h: "hourly_trace fig = groupby_size (map hour emoji_data)"
    by (simp add: fig_def)
  have s: "sorted (map fst (hourly_trace fig))" "distinct (map fst (hourly_trace fig))"
    "set (map fst (hourly_trace fig)) = {h. Some h \<in> set (map hour emoji_data)}"
    unfolding h by (rule groupby_size_sorted groupby_size_distinct groupby_size_set)+
  have c: "\<forall>(h, n) \<in> set (hourly_trace fig).
                 n = count_list (map hour emoji_data) (Some h) \<and> 0 < n"
    unfolding h using groupby_size_counts by blast
  from p d m s c show ?thesis by (intro exI [of _ fig] conjI)
qed

lemma ex_days:
  "map (\<lambda>d. (d, bucket (count_list
          (map day_of_week [ex_occurrence waving_hand, ex_occurrence party_popper]) (Some d))))
       days_order
   = [(py_str ''Monday'', None), (py_str ''Tuesday'', None), (py_str ''Wednesday'', None),
      (py_str ''Thursday'', None), (py_str ''Friday'', Some 2), (py_str ''Saturday'', None),
      (py_str ''Sunday'', None)]"
  by (simp add: days_order_def ex_occurrence_def bucket_def py_str_def)

text \<open>
  Claim C4, as amended, on two occurrences of Friday 15 March 2024, 10:30.
\<close>

theorem time_buckets_witness:
  "\<exists>fig. plot_time_patterns [ex_occurrence waving_hand, ex_occurrence party_popper]
            = ([GeneratingTimePatterns], Inr fig)
        \<and> daily_trace fig
            = [(py_str ''Monday'', None), (py_str ''Tuesday'', None),
               (py_str ''Wednesday'', None), (py_str ''Thursday'', None),
               (py_str ''Friday'', Some 2), (py_str ''Saturday'', None),
               (py_str ''Sunday'', None)]
        \<and> set (map fst (hourly_trace fig)) = {10}"
proof -
  have ne: "[ex_occurrence waving_hand, ex_occurrence party_popper] \<noteq> []" by simp
  from time_buckets [OF ne] obtain fig where
    p: "plot_time_patterns [ex_occurrence waving_hand, ex_occurrence party_popper]
            = ([GeneratingTimePatterns], Inr fig)"
    and d: "daily_trace fig = map (\<lambda>d. (d, bucket (count_list
          (map day_of_week [ex_occurrence waving_hand, ex_occurrence party_popper]) (Some d))))
       days_order"
    and h: "set (map fst (hourly_trace fig))
         = {h. Some h \<in> set (map hour [ex_occurrence waving_hand, ex_occurrence party_popper])}"
    by (elim exE conjE)
  have "set (map fst (hourly_trace fig)) = {10}"
    unfolding h by (auto simp: ex_occurrence_def)
  with p d [unfolded ex_days] show ?thesis by (intro exI conjI)
qed

text \<open>
  Claim C4 as stated fails: for one occurrence at 10 o'clock on a Friday the hourly
  trace has the single bucket 10, not 24 buckets, and the weekday buckets without
  occurrences hold \<^verbatim>\<open>nan\<close>, not zero.
\<close>

theorem time_buckets_counterexample:
  "map_sum id hourly_trace (snd (plot_time_patterns [ex_occurrence party_popper]))
     = Inr [(10, 1)]
   \<and> map_sum id daily_trace (snd (plot_time_patterns [ex_occurrence party_popper]))
     = Inr [(py_str ''Monday'', None), (py_str ''Tuesday'', None),
            (py_str ''Wednesday'', None), (py_str ''Thursday'', None),
            (py_str ''Friday'', Some 1), (py_str ''Saturday'', None),
            (py_str ''Sunday'', None)]"
  by (simp add: plot_time_patterns_def groupby_size_def reindex_def days_order_def
        ex_occurrence_def py_str_def Let_def)

end
